theory Spec2Isabelle
  imports Complex_Main "HOL-Library.Sublist"
begin

section \<open>Python values\<close>

text \<open>
  A Python \<open>str\<close> is a sequence of Unicode code points, so a string is a list of
  code points (natural numbers) and its length counts code points. ASCII literals of
  the source are written \<open>ustr ''...''\<close>; the emoji of the source are written as
  their code points.
\<close>

type_synonym pystr = "nat list"

definition ustr :: "string \<Rightarrow> pystr" where
  "ustr s = map of_char s"

text \<open>
  The payloads of the data provider are JSON objects whose leaves are strings: a
  value is a string or a dictionary. A dictionary is an association list in
  insertion order (the order \<open>keys()\<close> reports).
\<close>

datatype jv = JS pystr | JD "(pystr \<times> jv) list"

type_synonym dict = "(pystr \<times> jv) list"

datatype error =
    HTTPException nat
  | KeyError
  | TypeError
  | AttributeError
  | ValueError
  | IndexError
  | ZeroDivisionError
  | OtherError

text \<open>
  Everything the orchestration core does not compute itself: the Unicode character
  database beyond ASCII, the float parser and formatter of the Python runtime, and
  the collaborators the orchestrator imports. Floats are modelled as real numbers.
\<close>

record env =
  u_isalnum :: "nat \<Rightarrow> bool"
  u_isspace :: "nat \<Rightarrow> bool"
  u_lower :: "pystr \<Rightarrow> pystr"
  u_upper :: "pystr \<Rightarrow> pystr"
  float_of :: "pystr \<Rightarrow> real option"
  fmt_2f :: "real \<Rightarrow> pystr"
  str_dict :: "dict \<Rightarrow> pystr"
  get_stock_quote :: "pystr \<Rightarrow> error + dict"
  get_historical_data :: "pystr \<Rightarrow> error + dict"
  get_financial_news_mock :: "pystr \<Rightarrow> error + pystr list"
  analyze_risk_volatility_returns :: "pystr list \<Rightarrow> error + pystr"
  create_faiss_index :: "error option"
  similarity_search_with_score :: "pystr \<Rightarrow> nat \<Rightarrow> error + (pystr \<times> real) list"
  generate_text_with_gemini :: "pystr \<Rightarrow> error + pystr"

subsection \<open>String methods\<close>

definition is_ascii :: "pystr \<Rightarrow> bool" where
  "is_ascii s = list_all (\<lambda>c. c < 128) s"

definition ascii_lower :: "nat \<Rightarrow> nat" where
  "ascii_lower c = (if 65 \<le> c \<and> c \<le> 90 then c + 32 else c)"

definition ascii_upper :: "nat \<Rightarrow> nat" where
  "ascii_upper c = (if 97 \<le> c \<and> c \<le> 122 then c - 32 else c)"

text \<open>\<open>s.lower()\<close> and \<open>s.upper()\<close>: character-wise on ASCII text, the Unicode
  database's mapping otherwise.\<close>

definition py_lower :: "env \<Rightarrow> pystr \<Rightarrow> pystr" where
  "py_lower E s = (if is_ascii s then map ascii_lower s else u_lower E s)"

definition py_upper :: "env \<Rightarrow> pystr \<Rightarrow> pystr" where
  "py_upper E s = (if is_ascii s then map ascii_upper s else u_upper E s)"

text \<open>\<open>c.isspace()\<close>, and \<open>s.strip()\<close>.\<close>

definition is_space :: "env \<Rightarrow> nat \<Rightarrow> bool" where
  "is_space E c =
     (if c < 128 then (9 \<le> c \<and> c \<le> 13) \<or> (28 \<le> c \<and> c \<le> 32) else u_isspace E c)"

definition py_strip :: "env \<Rightarrow> pystr \<Rightarrow> pystr" where
  "py_strip E s = rev (dropWhile (is_space E) (rev (dropWhile (is_space E) s)))"

text \<open>\<open>sub in s\<close> on strings.\<close>

definition contains :: "pystr \<Rightarrow> pystr \<Rightarrow> bool" where
  "contains s sub = sublist sub s"

text \<open>\<open>s.replace(old, "")\<close> for a non-empty \<open>old\<close>: every occurrence found scanning
  from the left is dropped; the first argument counts the characters of an occurrence
  still to skip.\<close>

fun replace_del :: "nat \<Rightarrow> pystr \<Rightarrow> pystr \<Rightarrow> pystr" where
  "replace_del skip old [] = []"
| "replace_del (Suc k) old (c # cs) = replace_del k old cs"
| "replace_del 0 old (c # cs) =
     (if prefix old (c # cs) then replace_del (length old - 1) old cs
      else c # replace_del 0 old cs)"

text \<open>\<open>sep.join(xs)\<close>.\<close>

fun join :: "pystr \<Rightarrow> pystr list \<Rightarrow> pystr" where
  "join sep [] = []"
| "join sep [x] = x"
| "join sep (x # y # ys) = x @ sep @ join sep (y # ys)"

text \<open>\<open>str(n)\<close> for a non-negative integer.\<close>

function str_nat :: "nat \<Rightarrow> pystr" where
  "str_nat n = (if n < 10 then [48 + n] else str_nat (n div 10) @ [48 + n mod 10])"
  by pat_completeness auto
termination
  by (relation "measure (\<lambda>n. n)") auto

declare str_nat.simps [simp del]

subsection \<open>Dictionaries\<close>

text \<open>\<open>d.get(k)\<close> (\<open>None\<close> when the key is missing), truthiness, \<open>d[k]\<close>,
  \<open>k in d\<close>, and \<open>str(v)\<close> as an f-string applies it.\<close>

definition py_get :: "dict \<Rightarrow> pystr \<Rightarrow> jv option" where
  "py_get d k = map_of d k"

fun truthy :: "jv \<Rightarrow> bool" where
  "truthy (JS s) = (s \<noteq> [])"
| "truthy (JD d) = (d \<noteq> [])"

definition truthy_opt :: "jv option \<Rightarrow> bool" where
  "truthy_opt v = (case v of None \<Rightarrow> False | Some x \<Rightarrow> truthy x)"

definition subscript :: "dict \<Rightarrow> pystr \<Rightarrow> error + jv" where
  "subscript d k = (case map_of d k of None \<Rightarrow> Inl KeyError | Some v \<Rightarrow> Inr v)"

definition has_key :: "dict \<Rightarrow> pystr \<Rightarrow> bool" where
  "has_key d k = (map_of d k \<noteq> None)"

definition py_str :: "env \<Rightarrow> jv option \<Rightarrow> pystr" where
  "py_str E v =
     (case v of None \<Rightarrow> ustr ''None'' | Some (JS s) \<Rightarrow> s | Some (JD d) \<Rightarrow> str_dict E d)"

section \<open>The ticker pattern\<close>

text \<open>
  \<^verbatim>\<open>re.search(r'(price|quote|stock|performance|historical).*?\b([A-Z]{1,5})\b', query)\<close>

  The matcher below follows the backtracking search of the \<open>re\<close> module on this
  pattern: start positions from the left, the alternatives in the order written, the
  lazy \<open>.*?\<close> growing one character at a time (never over a newline), the greedy
  \<open>{1,5}\<close> shrinking from the longest run.
\<close>

definition triggers :: "pystr list" where
  "triggers = [ustr ''price'', ustr ''quote'', ustr ''stock'', ustr ''performance'',
     ustr ''historical'']"

definition is_AZ :: "nat \<Rightarrow> bool" where
  "is_AZ c = (65 \<le> c \<and> c \<le> 90)"

text \<open>\<open>\w\<close> on a \<open>str\<close> pattern: alphanumeric or underscore.\<close>

definition is_word :: "env \<Rightarrow> nat \<Rightarrow> bool" where
  "is_word E c =
     (if c < 128 then (48 \<le> c \<and> c \<le> 57) \<or> (65 \<le> c \<and> c \<le> 90) \<or> (97 \<le> c \<and> c \<le> 122) \<or> c = 95
      else u_isalnum E c)"

text \<open>\<open>\b\<close> at position \<open>i\<close>: exactly one of the two neighbours is a word character.\<close>

definition word_boundary :: "env \<Rightarrow> pystr \<Rightarrow> nat \<Rightarrow> bool" where
  "word_boundary E q i =
     ((0 < i \<and> i \<le> length q \<and> is_word E (q ! (i - 1))) \<noteq> (i < length q \<and> is_word E (q ! i)))"

text \<open>\<open>\b([A-Z]{1,5})\b\<close> at position \<open>j\<close>: the length of group 2, if it matches.\<close>

definition token_at :: "env \<Rightarrow> pystr \<Rightarrow> nat \<Rightarrow> nat option" where
  "token_at E q j =
     (if word_boundary E q j
      then List.find (\<lambda>k. word_boundary E q (j + k))
             (rev [1 ..< Suc (min 5 (length (takeWhile is_AZ (drop j q))))])
      else None)"

text \<open>\<open>.*?\<close> followed by the token, from position \<open>j\<close>: start and length of group 2.\<close>

function lazy_scan :: "env \<Rightarrow> pystr \<Rightarrow> nat \<Rightarrow> (nat \<times> nat) option" where
  "lazy_scan E q j =
     (case token_at E q j of
        Some k \<Rightarrow> Some (j, k)
      | None \<Rightarrow> if j < length q \<and> q ! j \<noteq> 10 then lazy_scan E q (Suc j) else None)"
  by pat_completeness auto
termination
  by (relation "measure (\<lambda>(E, q, j). length q - j)") auto

declare lazy_scan.simps [simp del]

text \<open>The match object: the spans of group 1 and group 2.\<close>

record re_match =
  g1_start :: nat
  g1_end :: nat
  g2_start :: nat
  g2_end :: nat

fun match_alts :: "env \<Rightarrow> pystr \<Rightarrow> nat \<Rightarrow> pystr list \<Rightarrow> re_match option" where
  "match_alts E q i [] = None"
| "match_alts E q i (t # ts) =
     (if prefix t (drop i q)
      then (case lazy_scan E q (i + length t) of
              Some (j, k) \<Rightarrow>
                Some \<lparr>g1_start = i, g1_end = i + length t, g2_start = j, g2_end = j + k\<rparr>
            | None \<Rightarrow> match_alts E q i ts)
      else match_alts E q i ts)"

fun first_match :: "env \<Rightarrow> pystr \<Rightarrow> nat list \<Rightarrow> re_match option" where
  "first_match E q [] = None"
| "first_match E q (i # is) =
     (case match_alts E q i triggers of Some m \<Rightarrow> Some m | None \<Rightarrow> first_match E q is)"

definition re_search :: "env \<Rightarrow> pystr \<Rightarrow> re_match option" where
  "re_search E q = first_match E q [0 ..< Suc (length q)]"

definition group2 :: "pystr \<Rightarrow> re_match \<Rightarrow> pystr" where
  "group2 q m = take (g2_end m - g2_start m) (drop (g2_start m) q)"

section \<open>The retrieval confidence gate (retriever agent)\<close>

text \<open>
  \<open>retrieve_info_from_rag(query, k)\<close>. The index is created on first use (an
  exception there propagates); an exception of the similarity search becomes
  \<open>HTTPException(500)\<close>; no match gives the sentinel text with confidence 0;
  otherwise the texts are joined and the per-match confidences
  \<open>max(0, 1 - (score / 1.0))\<close> are averaged.
\<close>

definition confidence :: "real \<Rightarrow> real" where
  "confidence score = max 0 (1 - (score / 1))"

definition retrieve_info_from_rag :: "env \<Rightarrow> pystr \<Rightarrow> nat \<Rightarrow> error + (pystr \<times> real)" where
  "retrieve_info_from_rag E query k =
     (case create_faiss_index E of
        Some e \<Rightarrow> Inl e
      | None \<Rightarrow>
         (case similarity_search_with_score E query k of
            Inl e \<Rightarrow> Inl (HTTPException 500)
          | Inr docs_with_scores \<Rightarrow>
              if docs_with_scores = [] then Inr (ustr ''No relevant documents found.'', 0)
              else
                let contents = map fst docs_with_scores;
                    scores = map (\<lambda>(doc, score). confidence score) docs_with_scores;
                    avg_conf = sum_list scores / real (length scores)
                in Inr (join (ustr ''\<newline>\<newline>'') contents, avg_conf)))"

section \<open>The dispatcher (orchestrator)\<close>

definition warning_sign :: pystr where
  "warning_sign = [9888, 65039]"

subsection \<open>Historical performance\<close>

text \<open>\<open>series[d]["4. close"]\<close>, \<open>float(v)\<close>, and the list comprehension over the
  dates.\<close>

definition close_of :: "dict \<Rightarrow> pystr \<Rightarrow> error + jv" where
  "close_of series d =
     (case subscript series d of
        Inl e \<Rightarrow> Inl e
      | Inr (JS s) \<Rightarrow> Inl TypeError
      | Inr (JD day) \<Rightarrow> subscript day (ustr ''4. close''))"

definition py_float :: "env \<Rightarrow> jv \<Rightarrow> error + real" where
  "py_float E v =
     (case v of
        JS s \<Rightarrow> (case float_of E s of None \<Rightarrow> Inl ValueError | Some x \<Rightarrow> Inr x)
      | JD d \<Rightarrow> Inl TypeError)"

fun close_prices :: "env \<Rightarrow> dict \<Rightarrow> pystr list \<Rightarrow> error + real list" where
  "close_prices E series [] = Inr []"
| "close_prices E series (d # ds) =
     (if has_key series d
      then (case close_of series d of
              Inl e \<Rightarrow> Inl e
            | Inr v \<Rightarrow>
               (case py_float E v of
                  Inl e \<Rightarrow> Inl e
                | Inr p \<Rightarrow>
                   (case close_prices E series ds of
                      Inl e \<Rightarrow> Inl e
                    | Inr ps \<Rightarrow> Inr (p # ps))))
      else close_prices E series ds)"

definition historical_path :: "env \<Rightarrow> pystr \<Rightarrow> error + jv" where
  "historical_path E ticker =
     (case get_historical_data E ticker of
        Inl e \<Rightarrow> Inl e
      | Inr data \<Rightarrow>
          if truthy_opt (py_get data (ustr ''Note'')) then subscript data (ustr ''Note'')
          else if truthy_opt (py_get data (ustr ''Information''))
          then subscript data (ustr ''Information'')
          else if data \<noteq> [] \<and> truthy_opt (py_get data (ustr ''Time Series (Daily)''))
          then
            (case subscript data (ustr ''Time Series (Daily)'') of
               Inl e \<Rightarrow> Inl e
             | Inr (JS s) \<Rightarrow> Inl AttributeError
             | Inr (JD series) \<Rightarrow>
                (case map fst series of
                   [] \<Rightarrow> Inl IndexError
                 | latest_date # _ \<Rightarrow>
                    (case close_of series latest_date of
                       Inl e \<Rightarrow> Inl e
                     | Inr latest_close \<Rightarrow>
                        (case close_prices E series (take 7 (map fst series)) of
                           Inl e \<Rightarrow> Inl e
                         | Inr prices \<Rightarrow>
                            if length prices > 1
                            then
                              (if last prices = 0 then Inl ZeroDivisionError
                               else
                                 let returns = (hd prices - last prices) / last prices * 100
                                 in Inr (JS (ustr ''Historical performance for '' @ ticker
                                      @ ustr '': Latest close on '' @ latest_date
                                      @ ustr '' was '' @ py_str E (Some latest_close)
                                      @ ustr ''. Over the last '' @ str_nat (length prices)
                                      @ ustr '' days, it changed by '' @ fmt_2f E returns
                                      @ ustr ''%.'')))
                            else Inr (JS (ustr ''Latest close for '' @ ticker @ ustr '' on ''
                                   @ latest_date @ ustr '' was ''
                                   @ py_str E (Some latest_close) @ ustr ''.''))))))
          else Inr (JS (warning_sign @ ustr '' Could not retrieve historical data for ''
                 @ ticker @ ustr ''.'')))"

subsection \<open>Live quote\<close>

definition quote_path :: "env \<Rightarrow> pystr \<Rightarrow> error + jv" where
  "quote_path E ticker =
     (case get_stock_quote E ticker of
        Inl e \<Rightarrow> Inl e
      | Inr data \<Rightarrow>
          if truthy_opt (py_get data (ustr ''Note'')) then subscript data (ustr ''Note'')
          else if truthy_opt (py_get data (ustr ''Information''))
          then subscript data (ustr ''Information'')
          else if data \<noteq> [] \<and> has_key data (ustr ''Global Quote'')
                  \<and> truthy_opt (py_get data (ustr ''Global Quote''))
          then
            (case subscript data (ustr ''Global Quote'') of
               Inl e \<Rightarrow> Inl e
             | Inr (JS s) \<Rightarrow> Inl AttributeError
             | Inr (JD quote_info) \<Rightarrow>
                 Inr (JS ([128200] @ ustr '' '' @ ticker @ ustr '' Stock Quote:\<newline>''
                   @ ustr ''Open: '' @ py_str E (py_get quote_info (ustr ''02. open''))
                   @ ustr ''\<newline>High: '' @ py_str E (py_get quote_info (ustr ''03. high''))
                   @ ustr ''\<newline>Low: '' @ py_str E (py_get quote_info (ustr ''04. low''))
                   @ ustr ''\<newline>Price: '' @ py_str E (py_get quote_info (ustr ''05. price''))
                   @ ustr ''\<newline>Volume: '' @ py_str E (py_get quote_info (ustr ''06. volume''))
                   @ ustr ''\<newline>Last Trading Day: ''
                   @ py_str E (py_get quote_info (ustr ''07. latest trading day'')))))
          else Inr (JS (warning_sign @ ustr '' Could not retrieve live quote for '' @ ticker
                 @ ustr ''.'')))"

subsection \<open>News, analysis, explanation, default\<close>

definition news_query_term :: "env \<Rightarrow> pystr \<Rightarrow> pystr" where
  "news_query_term E query_lower =
     py_strip E (replace_del 0 (ustr ''latest news on'')
       (replace_del 0 (ustr ''news about'') query_lower))"

definition news_path :: "env \<Rightarrow> pystr \<Rightarrow> error + jv" where
  "news_path E term =
     (case get_financial_news_mock E term of
        Inl e \<Rightarrow> Inl e
      | Inr news \<Rightarrow>
          if news \<noteq> []
          then Inr (JS ([128240] @ ustr '' Latest News:\<newline>''
                 @ join (ustr ''\<newline>'') (map (\<lambda>n. ustr ''- '' @ n) news)))
          else Inr (JS (warning_sign
                 @ ustr '' Could not retrieve financial news at this time.'')))"

definition tickers_for_analysis :: "pystr list" where
  "tickers_for_analysis = [ustr ''AAPL'', ustr ''GOOGL'']"

definition analysis_path :: "env \<Rightarrow> pystr list \<Rightarrow> error + jv" where
  "analysis_path E tickers =
     (case analyze_risk_volatility_returns E tickers of
        Inl e \<Rightarrow> Inl e
      | Inr analysis_result \<Rightarrow>
          Inr (JS ([128202] @ ustr '' Financial Analysis for '' @ join (ustr '', '') tickers
            @ ustr '':\<newline>'' @ analysis_result)))"

definition low_confidence_header :: pystr where
  "low_confidence_header =
     ustr ''I couldn't find very specific info, but here's what I know:\<newline>\<newline>''"

definition found_header :: pystr where
  "found_header = [128216] @ ustr '' Here's what I found:\<newline>\<newline>''"

definition explain_path :: "env \<Rightarrow> pystr \<Rightarrow> error + jv" where
  "explain_path E query =
     (case retrieve_info_from_rag E query 2 of
        Inl e \<Rightarrow> Inl e
      | Inr (retrieved_content, confidence_score) \<Rightarrow>
          if confidence_score < 0.7
          then
            (case generate_text_with_gemini E (ustr ''Explain this concept: '' @ query) of
               Inl e \<Rightarrow> Inl e
             | Inr response \<Rightarrow> Inr (JS (low_confidence_header @ response)))
          else
            (case generate_text_with_gemini E
                    (ustr ''Explain this based on context:\<newline>\<newline>'' @ retrieved_content
                     @ ustr ''\<newline>\<newline>User asked: '' @ query) of
               Inl e \<Rightarrow> Inl e
             | Inr response \<Rightarrow> Inr (JS (found_header @ response))))"

definition default_path :: "env \<Rightarrow> pystr \<Rightarrow> error + jv" where
  "default_path E query =
     (case generate_text_with_gemini E
             (ustr ''User asked: '' @ query @ ustr ''. Please respond as a financial assistant.'') of
        Inl e \<Rightarrow> Inl e
      | Inr response \<Rightarrow> Inr (JS response))"

subsection \<open>\<open>orchestrate_query\<close>\<close>

definition news_keywords :: "pystr list" where
  "news_keywords = [ustr ''news'', ustr ''headlines'', ustr ''filings'']"

definition analysis_terms :: "pystr list" where
  "analysis_terms = [ustr ''analyze'', ustr ''risk'', ustr ''volatility'', ustr ''returns'',
     ustr ''portfolio'']"

definition explain_terms :: "pystr list" where
  "explain_terms = [ustr ''explain'', ustr ''what is'', ustr ''tell me about'', ustr ''define'']"

definition orchestrate_query :: "env \<Rightarrow> pystr \<Rightarrow> error + jv" where
  "orchestrate_query E query =
     (let query_lower = py_lower E query in
      case re_search E query of
        Some stock_match \<Rightarrow>
          let ticker = py_upper E (group2 query stock_match) in
          if contains query_lower (ustr ''historical'') \<or> contains query_lower (ustr ''performance'')
          then historical_path E ticker
          else quote_path E ticker
      | None \<Rightarrow>
          if contains query_lower (ustr ''news'') \<or> contains query_lower (ustr ''headlines'')
               \<or> contains query_lower (ustr ''filings'')
          then news_path E (news_query_term E query_lower)
          else if list_ex (contains query_lower) analysis_terms
          then analysis_path E tickers_for_analysis
          else if list_ex (contains query_lower) explain_terms
          then explain_path E query
          else default_path E query)"

subsection \<open>The intent of a query\<close>

text \<open>
  The specification names the branch a query takes: its intent. \<open>classify\<close> follows
  the rule list of the specification; \<open>handle\<close> is the handler of each intent.
\<close>

datatype intent =
    Quote pystr
  | Historical pystr
  | News pystr
  | Analysis "pystr list"
  | Explain pystr
  | Unclassified

definition classify :: "env \<Rightarrow> pystr \<Rightarrow> intent" where
  "classify E query =
     (case re_search E query of
        Some m \<Rightarrow>
          if list_ex (contains (py_lower E query)) [ustr ''historical'', ustr ''performance'']
          then Historical (py_upper E (group2 query m))
          else Quote (py_upper E (group2 query m))
      | None \<Rightarrow>
          if list_ex (contains (py_lower E query)) news_keywords
          then News (news_query_term E (py_lower E query))
          else if list_ex (contains (py_lower E query)) analysis_terms
          then Analysis tickers_for_analysis
          else if list_ex (contains (py_lower E query)) explain_terms
          then Explain query
          else Unclassified)"

fun handle :: "env \<Rightarrow> pystr \<Rightarrow> intent \<Rightarrow> error + jv" where
  "handle E query (Quote t) = quote_path E t"
| "handle E query (Historical t) = historical_path E t"
| "handle E query (News topic) = news_path E topic"
| "handle E query (Analysis ts) = analysis_path E ts"
| "handle E query (Explain topic) = explain_path E topic"
| "handle E query Unclassified = default_path E query"

subsection \<open>\<open>get_market_brief\<close>\<close>

text \<open>The loop over the index tickers: \<open>Inr (Inl v)\<close> is the early \<open>return v\<close>,
  \<open>Inr (Inr parts)\<close> the list \<open>brief_parts\<close> after the loop.\<close>

fun brief_tickers :: "env \<Rightarrow> pystr list \<Rightarrow> pystr list \<Rightarrow> error + (jv + pystr list)" where
  "brief_tickers E [] brief_parts = Inr (Inr brief_parts)"
| "brief_tickers E (ticker # tickers) brief_parts =
     (case get_stock_quote E ticker of
        Inl e \<Rightarrow> Inl e
      | Inr data \<Rightarrow>
          if truthy_opt (py_get data (ustr ''Note''))
          then (case subscript data (ustr ''Note'') of Inl e \<Rightarrow> Inl e | Inr v \<Rightarrow> Inr (Inl v))
          else if data \<noteq> [] \<and> has_key data (ustr ''Global Quote'')
          then
            (case subscript data (ustr ''Global Quote'') of
               Inl e \<Rightarrow> Inl e
             | Inr (JS s) \<Rightarrow> Inl AttributeError
             | Inr (JD gq) \<Rightarrow>
                 let price = (case py_get gq (ustr ''05. price'') of
                                None \<Rightarrow> ustr ''N/A'' | Some v \<Rightarrow> py_str E (Some v));
                     change = (case py_get gq (ustr ''09. change'') of
                                None \<Rightarrow> ustr ''N/A'' | Some v \<Rightarrow> py_str E (Some v))
                 in brief_tickers E tickers
                      (brief_parts @ [ticker @ ustr '': $'' @ price @ ustr '' (Change: ''
                         @ change @ ustr '')'']))
          else brief_tickers E tickers (brief_parts @ [ticker @ ustr '': Quote unavailable.'']))"

definition index_tickers :: "pystr list" where
  "index_tickers = [ustr ''SPY'', ustr ''QQQ'', ustr ''DIA'']"

definition brief_prompt :: "pystr list \<Rightarrow> pystr" where
  "brief_prompt brief_parts =
     ustr ''Summarize this market brief:\<newline>'' @ join (ustr ''\<newline>'') brief_parts"

definition get_market_brief :: "env \<Rightarrow> error + jv" where
  "get_market_brief E =
     (case brief_tickers E index_tickers [] of
        Inl e \<Rightarrow> Inl e
      | Inr (Inl v) \<Rightarrow> Inr v
      | Inr (Inr brief_parts) \<Rightarrow>
         (case get_financial_news_mock E (ustr ''market'') of
            Inl e \<Rightarrow> Inl e
          | Inr news \<Rightarrow>
              let brief_parts' =
                    (if news \<noteq> []
                     then brief_parts @ [[10, 128478, 65039] @ ustr '' News:'']
                            @ map (\<lambda>h. ustr ''- '' @ h) (take 3 news)
                     else brief_parts)
              in (case generate_text_with_gemini E (brief_prompt brief_parts') of
                    Inl e \<Rightarrow> Inl e
                  | Inr summary \<Rightarrow> Inr (JS summary))))"

section \<open>The quote and history collaborator (api agent)\<close>

text \<open>
  The provider: the configured key and the outcome of
  \<open>requests.get(BASE_URL, params).json()\<close>, \<open>None\<close> when the request, the status
  check or the decoding raises.
\<close>

record provider =
  ALPHA_VANTAGE_API_KEY :: "pystr option"
  requests_get_json :: "(pystr \<times> pystr) list \<Rightarrow> dict option"

text \<open>
  \<open>fetch_alpha_vantage_data(function, symbol, **kwargs)\<close>. The
  \<open>HTTPException(400)\<close> raised for an \<open>"Error Message"\<close> is raised inside the
  \<open>try\<close> block, where \<open>except Exception\<close> catches it and raises
  \<open>HTTPException(500)\<close>.
\<close>

definition fetch_alpha_vantage_data ::
  "provider \<Rightarrow> pystr \<Rightarrow> pystr \<Rightarrow> (pystr \<times> pystr) list \<Rightarrow> error + dict" where
  "fetch_alpha_vantage_data P function symbol kwargs =
     (case ALPHA_VANTAGE_API_KEY P of
        None \<Rightarrow> Inl (HTTPException 500)
      | Some key \<Rightarrow>
          if key = [] then Inl (HTTPException 500)
          else
            let params = [(ustr ''function'', function), (ustr ''symbol'', symbol),
                          (ustr ''apikey'', key)] @ kwargs
            in (case requests_get_json P params of
                  None \<Rightarrow> Inl (HTTPException 500)
                | Some data \<Rightarrow>
                    if has_key data (ustr ''Error Message'') then Inl (HTTPException 500)
                    else if has_key data (ustr ''Note'') then Inr []
                    else Inr data))"

definition api_get_stock_quote :: "provider \<Rightarrow> pystr \<Rightarrow> error + dict" where
  "api_get_stock_quote P ticker = fetch_alpha_vantage_data P (ustr ''GLOBAL_QUOTE'') ticker []"

definition api_get_historical_data :: "provider \<Rightarrow> pystr \<Rightarrow> pystr \<Rightarrow> error + dict" where
  "api_get_historical_data P ticker outputsize =
     fetch_alpha_vantage_data P (ustr ''TIME_SERIES_DAILY'') ticker
       [(ustr ''outputsize'', outputsize)]"

section \<open>The news collaborator (scraping agent)\<close>

definition MOCK_market :: "pystr list" where
  "MOCK_market =
     [ustr ''Global markets show mixed signals as inflation concerns persist.'',
      ustr ''Tech stocks lead rally; S&P 500 hits new high.'',
      ustr ''Oil prices surge amidst geopolitical tensions.'',
      ustr ''Central banks hint at potential interest rate changes.'']"

definition MOCK_company :: "(pystr \<times> pystr list) list" where
  "MOCK_company =
     [(ustr ''AAPL'',
        [ustr ''Apple announces record quarterly earnings, driven by iPhone sales.'',
         ustr ''Analysts raise price targets for AAPL after new product unveiling.'',
         ustr ''Apple faces antitrust scrutiny in Europe.'']),
      (ustr ''GOOGL'',
        [ustr ''Google invests heavily in AI research and development.'',
         ustr ''Alphabet beats revenue estimates, cloud growth impresses.'',
         ustr ''Google's ad business shows resilience despite market slowdown.'']),
      (ustr ''MSFT'',
        [ustr ''Microsoft expands cloud services, invests in AI partnerships.'',
         ustr ''Windows 12 rumors surface ahead of major Microsoft event.'',
         ustr ''Microsoft acquires leading gaming studio for undisclosed sum.''])]"

definition MOCK_default :: "pystr list" where
  "MOCK_default =
     [ustr ''Top financial analysts share their 2024 predictions.'',
      ustr ''Understanding the basics of personal finance and investment.'',
      ustr ''Cryptocurrency market experiences high volatility.'',
      ustr ''Real estate market trends: What to expect next quarter.'']"

definition scraping_get_financial_news_mock :: "env \<Rightarrow> pystr \<Rightarrow> pystr list" where
  "scraping_get_financial_news_mock E query_term =
     (let query_lower = py_lower E query_term in
      if list_ex (contains query_lower) [ustr ''aapl'', ustr ''googl'', ustr ''msft'']
      then (case List.find (\<lambda>(ticker_key, news_list). contains query_lower (py_lower E ticker_key))
                   MOCK_company of
              Some (ticker_key, news_list) \<Rightarrow> news_list
            | None \<Rightarrow> MOCK_default)
      else if contains query_lower (ustr ''market'') then MOCK_market
      else MOCK_default)"

section \<open>The repository's wiring\<close>

text \<open>The orchestrator imports its quote, history and news collaborators from the
  two agents above.\<close>

definition repo_env :: "provider \<Rightarrow> env \<Rightarrow> env" where
  "repo_env P E =
     E\<lparr>get_stock_quote := api_get_stock_quote P,
       get_historical_data := (\<lambda>ticker. api_get_historical_data P ticker (ustr ''compact'')),
       get_financial_news_mock := (\<lambda>term. Inr (scraping_get_financial_news_mock E term))\<rparr>"

section \<open>Notions of the specification\<close>

text \<open>
  A trigger word at position \<open>i\<close>; a standalone token of \<open>k\<close> uppercase letters at
  position \<open>j\<close> (one to five letters \<open>A\<close>-\<open>Z\<close> between two word boundaries); and
  the stretch from \<open>a\<close> to \<open>b\<close> lying on one line.
\<close>

definition trigger_at :: "pystr \<Rightarrow> nat \<Rightarrow> pystr \<Rightarrow> bool" where
  "trigger_at q i t = (t \<in> set triggers \<and> prefix t (drop i q))"

definition standalone_token :: "env \<Rightarrow> pystr \<Rightarrow> nat \<Rightarrow> nat \<Rightarrow> bool" where
  "standalone_token E q j k =
     (1 \<le> k \<and> k \<le> 5 \<and> j + k \<le> length q \<and> list_all is_AZ (take k (drop j q))
      \<and> word_boundary E q j \<and> word_boundary E q (j + k))"

definition same_line :: "pystr \<Rightarrow> nat \<Rightarrow> nat \<Rightarrow> bool" where
  "same_line q a b = list_all (\<lambda>c. c \<noteq> 10) (take (b - a) (drop a q))"

text \<open>A collaborator response carries a provider signal when its \<open>"Note"\<close> or, failing
  that, its \<open>"Information"\<close> entry is truthy.\<close>

definition provider_signal :: "dict \<Rightarrow> jv option" where
  "provider_signal data =
     (if truthy_opt (py_get data (ustr ''Note'')) then py_get data (ustr ''Note'')
      else if truthy_opt (py_get data (ustr ''Information''))
      then py_get data (ustr ''Information'')
      else None)"

text \<open>A request is rate limited when the key is configured and the provider answers with
  a \<open>"Note"\<close> entry and no \<open>"Error Message"\<close> entry.\<close>

definition rate_limited :: "provider \<Rightarrow> pystr \<Rightarrow> pystr \<Rightarrow> (pystr \<times> pystr) list \<Rightarrow> bool" where
  "rate_limited P function symbol kwargs =
     (case ALPHA_VANTAGE_API_KEY P of
        None \<Rightarrow> False
      | Some key \<Rightarrow>
          key \<noteq> [] \<and>
          (case requests_get_json P
                  ([(ustr ''function'', function), (ustr ''symbol'', symbol),
                    (ustr ''apikey'', key)] @ kwargs) of
             None \<Rightarrow> False
           | Some data \<Rightarrow>
               has_key data (ustr ''Note'') \<and> \<not> has_key data (ustr ''Error Message'')))"

text \<open>The lines of a text.\<close>

fun split_lines :: "pystr \<Rightarrow> pystr list" where
  "split_lines [] = [[]]"
| "split_lines (c # cs) =
     (if c = 10 then [] # split_lines cs
      else (case split_lines cs of [] \<Rightarrow> [[c]] | l # ls \<Rightarrow> (c # l) # ls))"

section \<open>Sample environments\<close>

definition sample_float :: "pystr \<Rightarrow> real option" where
  "sample_float s =
     (if s = ustr ''110.00'' then Some 110
      else if s = ustr ''100.00'' then Some 100
      else None)"

definition sample_env :: env where
  "sample_env =
     \<lparr>u_isalnum = (\<lambda>c. False), u_isspace = (\<lambda>c. False), u_lower = (\<lambda>s. s), u_upper = (\<lambda>s. s),
      float_of = sample_float,
      fmt_2f = (\<lambda>x. if x = 10 then ustr ''10.00'' else ustr ''0.00''),
      str_dict = (\<lambda>d. ustr ''{}''),
      get_stock_quote = (\<lambda>t. Inr []),
      get_historical_data = (\<lambda>t. Inr []),
      get_financial_news_mock = (\<lambda>t. Inr []),
      analyze_risk_volatility_returns = (\<lambda>ts. Inr (ustr ''{}'')),
      create_faiss_index = None,
      similarity_search_with_score = (\<lambda>q k. Inr []),
      generate_text_with_gemini = (\<lambda>p. Inr (ustr ''ok''))\<rparr>"

definition two_matches :: "(pystr \<times> real) list" where
  "two_matches = [(ustr ''Diversification is a strategy'', 0.3), (ustr ''Risk management'', 1.5)]"

definition low_env :: env where
  "low_env = sample_env\<lparr>similarity_search_with_score :=
     (\<lambda>q k. Inr [(ustr ''Diversification is a strategy'', 0.58)])\<rparr>"

definition high_env :: env where
  "high_env = sample_env\<lparr>similarity_search_with_score :=
     (\<lambda>q k. Inr [(ustr ''Diversification is a strategy'', 0.1)])\<rparr>"

definition tsla_payload :: dict where
  "tsla_payload =
     [(ustr ''Global Quote'',
       JD [(ustr ''01. symbol'', JS (ustr ''TSLA'')),
           (ustr ''02. open'', JS (ustr ''250.10'')),
           (ustr ''03. high'', JS (ustr ''255.00'')),
           (ustr ''04. low'', JS (ustr ''248.50'')),
           (ustr ''05. price'', JS (ustr ''252.30'')),
           (ustr ''06. volume'', JS (ustr ''1000000'')),
           (ustr ''07. latest trading day'', JS (ustr ''2024-05-01''))])]"

definition no_provider :: provider where
  "no_provider = \<lparr>ALPHA_VANTAGE_API_KEY = None, requests_get_json = (\<lambda>params. None)\<rparr>"

definition note_env :: env where
  "note_env = sample_env\<lparr>get_stock_quote :=
     (\<lambda>t. Inr [(ustr ''Note'', JS (ustr ''API call frequency is 5 calls per minute.''))])\<rparr>"

definition info_env :: env where
  "info_env = sample_env
     \<lparr>get_stock_quote :=
        (\<lambda>t. Inr [(ustr ''Information'', JS (ustr ''Please subscribe to a premium plan.''))]),
      get_historical_data :=
        (\<lambda>t. Inr [(ustr ''Information'', JS (ustr ''Please subscribe to a premium plan.''))])\<rparr>"

definition day :: "string \<Rightarrow> string \<Rightarrow> pystr \<times> jv" where
  "day date close =
     (ustr date, JD [(ustr ''1. open'', JS (ustr ''105.00'')), (ustr ''4. close'', JS (ustr close))])"

definition eight_days :: dict where
  "eight_days =
     [day ''2024-05-10'' ''110.00'', day ''2024-05-09'' ''100.00'', day ''2024-05-08'' ''100.00'',
      day ''2024-05-07'' ''100.00'', day ''2024-05-06'' ''100.00'', day ''2024-05-03'' ''100.00'',
      day ''2024-05-02'' ''100.00'', day ''2024-05-01'' ''110.00'']"

definition week_env :: env where
  "week_env = sample_env\<lparr>get_historical_data :=
     (\<lambda>t. Inr [(ustr ''Meta Data'', JD [(ustr ''2. Symbol'', JS t)]),
                (ustr ''Time Series (Daily)'', JD eight_days)])\<rparr>"

definition one_day_env :: env where
  "one_day_env = sample_env\<lparr>get_historical_data :=
     (\<lambda>t. Inr [(ustr ''Time Series (Daily)'', JD [day ''2024-05-10'' ''110.00''])])\<rparr>"

definition mixed_env :: env where
  "mixed_env = sample_env
     \<lparr>get_stock_quote :=
        (\<lambda>t. if t = ustr ''QQQ''
             then Inr [(ustr ''Information'', JS (ustr ''Please subscribe to a premium plan.''))]
             else Inr [(ustr ''Global Quote'',
                        JD [(ustr ''05. price'', JS (ustr ''500.00'')),
                            (ustr ''09. change'', JS (ustr ''1.25''))])]),
      generate_text_with_gemini := (\<lambda>prompt. Inr prompt)\<rparr>"

definition limited :: provider where
  "limited =
     \<lparr>ALPHA_VANTAGE_API_KEY = Some (ustr ''demo''),
      requests_get_json =
        (\<lambda>params. Some [(ustr ''Note'', JS (ustr ''API call frequency is 5 calls per minute.''))])\<rparr>"

definition error_and_note :: provider where
  "error_and_note =
     \<lparr>ALPHA_VANTAGE_API_KEY = Some (ustr ''demo''),
      requests_get_json =
        (\<lambda>params. Some [(ustr ''Error Message'', JS (ustr ''Invalid API call.'')),
                        (ustr ''Note'', JS (ustr ''API call frequency is 5 calls per minute.''))])\<rparr>"

section \<open>Properties of the ticker pattern\<close>

lemma AZ_is_word: "is_AZ c \<Longrightarrow> is_word E c"
  by (simp add: is_AZ_def is_word_def)

lemma find_rev_upt_top: "1 \<le> k \<Longrightarrow> P k \<Longrightarrow> List.find P (rev [1 ..< Suc k]) = Some k"
  by simp

lemma find_SomeD: "List.find P xs = Some x \<Longrightarrow> x \<in> set xs \<and> P x"
  by (induction xs) (auto split: if_splits)

lemma takeWhile_length_ge:
  "k \<le> length xs \<Longrightarrow> list_all P (take k xs) \<Longrightarrow> k \<le> length (takeWhile P xs)"
proof (induction xs arbitrary: k)
  case Nil
  then show ?case by simp
next
  case (Cons x xs)
  then show ?case by (cases k) auto
qed

lemma takeWhile_length_le:
  "k < length xs \<Longrightarrow> \<not> P (xs ! k) \<Longrightarrow> length (takeWhile P xs) \<le> k"
proof (induction xs arbitrary: k)
  case Nil
  then show ?case by simp
next
  case (Cons x xs)
  then show ?case by (cases k) auto
qed

lemma take_takeWhile_all:
  "k \<le> length (takeWhile P xs) \<Longrightarrow> list_all P (take k xs)"
proof (induction xs arbitrary: k)
  case Nil
  then show ?case by simp
next
  case (Cons x xs)
  then show ?case by (cases k) (auto split: if_splits)
qed

lemma token_at_sound:
  assumes "token_at E q j = Some k"
  shows "standalone_token E q j k"
proof -
  let ?n = "length (takeWhile is_AZ (drop j q))"
  from assms have wb: "word_boundary E q j"
    by (auto simp: token_at_def split: if_splits)
  from assms wb have f: "List.find (\<lambda>k. word_boundary E q (j + k)) (rev [1 ..< Suc (min 5 ?n)]) = Some k"
    by (simp add: token_at_def)
  from find_SomeD[OF f]
  have mem: "k \<in> set (rev [1 ..< Suc (min 5 ?n)])" and wbk: "word_boundary E q (j + k)"
    by blast+
  from mem have k: "1 \<le> k" "k \<le> 5" "k \<le> ?n" by (auto simp del: upt_Suc)
  have "?n \<le> length (drop j q)" by (rule length_takeWhile_le)
  with k have len: "j + k \<le> length q" by simp
  from k have "list_all is_AZ (take k (drop j q))" by (intro take_takeWhile_all)
  with k len wb wbk show ?thesis by (simp add: standalone_token_def)
qed

lemma token_at_complete:
  assumes "standalone_token E q j k"
  shows "token_at E q j = Some k"
proof -
  let ?n = "length (takeWhile is_AZ (drop j q))"
  from assms have k: "1 \<le> k" "k \<le> 5" and len: "j + k \<le> length q"
    and az: "list_all is_AZ (take k (drop j q))"
    and wb: "word_boundary E q j" and wbk: "word_boundary E q (j + k)"
    by (simp_all add: standalone_token_def)
  from len az have ge: "k \<le> ?n" by (intro takeWhile_length_ge) simp_all
  have le: "?n \<le> k"
  proof (cases "j + k < length q")
    case True
    from az k len have "is_AZ (q ! (j + k - 1))"
      by (auto simp: list_all_length dest!: spec[of _ "k - 1"])
    then have "is_word E (q ! (j + k - 1))" by (rule AZ_is_word)
    with wbk True k have "\<not> is_word E (q ! (j + k))"
      by (auto simp: word_boundary_def)
    then have "\<not> is_AZ (drop j q ! k)" using True by (auto dest: AZ_is_word)
    with True show ?thesis by (intro takeWhile_length_le) simp_all
  next
    case False
    with len have "length (drop j q) = k" by simp
    then show ?thesis using length_takeWhile_le[of is_AZ "drop j q"] by simp
  qed
  from ge le have m: "min 5 ?n = k" using k by simp
  from k wbk have "List.find (\<lambda>k. word_boundary E q (j + k)) (rev [1 ..< Suc k]) = Some k"
    by (intro find_rev_upt_top)
  with wb m show ?thesis unfolding token_at_def by simp
qed

lemma token_at_iff: "token_at E q j = Some k \<longleftrightarrow> standalone_token E q j k"
  using token_at_sound token_at_complete by blast

lemma same_line_iff:
  "same_line q a b \<longleftrightarrow> (\<forall>r. a \<le> r \<and> r < b \<and> r < length q \<longrightarrow> q ! r \<noteq> 10)"
proof
  assume s: "same_line q a b"
  show "\<forall>r. a \<le> r \<and> r < b \<and> r < length q \<longrightarrow> q ! r \<noteq> 10"
  proof (intro allI impI)
    fix r assume r: "a \<le> r \<and> r < b \<and> r < length q"
    then have "r - a < length (take (b - a) (drop a q))" by auto
    with s have "take (b - a) (drop a q) ! (r - a) \<noteq> 10"
      unfolding same_line_def list_all_length by blast
    moreover from r have "take (b - a) (drop a q) ! (r - a) = q ! r"
      by (simp add: nth_take less_diff_conv2)
    ultimately show "q ! r \<noteq> 10" by simp
  qed
next
  assume h: "\<forall>r. a \<le> r \<and> r < b \<and> r < length q \<longrightarrow> q ! r \<noteq> 10"
  show "same_line q a b"
    unfolding same_line_def list_all_length
  proof (intro allI impI)
    fix n assume n: "n < length (take (b - a) (drop a q))"
    then have "a \<le> a + n \<and> a + n < b \<and> a + n < length q" by auto
    with h have "q ! (a + n) \<noteq> 10" by blast
    moreover from n have "a \<le> length q" by (cases "a \<le> length q") simp_all
    ultimately show "take (b - a) (drop a q) ! n \<noteq> 10" using n by simp
  qed
qed

lemma lazy_scan_sound:
  "lazy_scan E q j = Some (p, k) \<Longrightarrow>
     j \<le> p \<and> token_at E q p = Some k
     \<and> (\<forall>r. j \<le> r \<and> r < p \<longrightarrow> r < length q \<and> q ! r \<noteq> 10 \<and> token_at E q r = None)"
proof (induction E q j rule: lazy_scan.induct)
  case (1 E q j)
  show ?case
  proof (cases "token_at E q j")
    case (Some k')
    with "1.prems" show ?thesis by (subst (asm) lazy_scan.simps) auto
  next
    case None
    from "1.prems" have "(if j < length q \<and> q ! j \<noteq> 10 then lazy_scan E q (Suc j) else None) = Some (p, k)"
      by (subst (asm) lazy_scan.simps) (simp add: None)
    then have c: "j < length q \<and> q ! j \<noteq> 10" and rec: "lazy_scan E q (Suc j) = Some (p, k)"
      by (simp_all split: if_splits)
    from "1.IH"[OF None _ rec] c
    have ih: "Suc j \<le> p \<and> token_at E q p = Some k
       \<and> (\<forall>r. Suc j \<le> r \<and> r < p \<longrightarrow> r < length q \<and> q ! r \<noteq> 10 \<and> token_at E q r = None)"
      by simp
    have "\<forall>r. j \<le> r \<and> r < p \<longrightarrow> r < length q \<and> q ! r \<noteq> 10 \<and> token_at E q r = None"
    proof (intro allI impI)
      fix r assume "j \<le> r \<and> r < p"
      then consider "r = j" | "Suc j \<le> r \<and> r < p" by linarith
      then show "r < length q \<and> q ! r \<noteq> 10 \<and> token_at E q r = None"
        using c None ih by cases auto
    qed
    with ih show ?thesis by simp
  qed
qed

lemma lazy_scan_complete:
  "token_at E q p = Some k \<Longrightarrow> j \<le> p \<Longrightarrow> same_line q j p \<Longrightarrow>
     \<exists>r. lazy_scan E q j = Some r"
proof (induction "p - j" arbitrary: j)
  case 0
  then have "j = p" by simp
  with "0.prems" show ?case by (subst lazy_scan.simps) simp
next
  case (Suc d)
  show ?case
  proof (cases "token_at E q j")
    case (Some k')
    then show ?thesis by (subst lazy_scan.simps) simp
  next
    case None
    from Suc.hyps have jp: "j < p" by simp
    from Suc.prems(1) have "p \<le> length q"
      by (auto dest!: token_at_sound simp: standalone_token_def)
    with jp have jl: "j < length q" by simp
    with Suc.prems(3) jp have nl: "q ! j \<noteq> 10" by (auto simp: same_line_iff)
    from Suc.prems(3) have sl: "same_line q (Suc j) p" by (auto simp: same_line_iff)
    from Suc.hyps have "d = p - Suc j" by simp
    from Suc.hyps(1)[OF this Suc.prems(1) _ sl] jp
    obtain r where "lazy_scan E q (Suc j) = Some r" by auto
    with None jl nl show ?thesis by (subst lazy_scan.simps) simp
  qed
qed

lemma match_alts_sound:
  "match_alts E q i ts = Some m \<Longrightarrow>
     \<exists>t\<in>set ts. prefix t (drop i q) \<and> g1_start m = i \<and> g1_end m = i + length t
       \<and> (\<exists>k. lazy_scan E q (i + length t) = Some (g2_start m, k) \<and> g2_end m = g2_start m + k)"
  by (induction ts) (auto split: if_splits option.splits)

lemma match_alts_complete:
  "t \<in> set ts \<Longrightarrow> prefix t (drop i q) \<Longrightarrow> lazy_scan E q (i + length t) = Some r \<Longrightarrow>
     \<exists>m. match_alts E q i ts = Some m"
  by (induction ts) (auto split: if_splits option.splits)

lemma first_match_sound:
  "first_match E q is = Some m \<Longrightarrow> \<exists>i\<in>set is. match_alts E q i triggers = Some m"
  by (induction "is") (auto split: option.splits)

lemma first_match_complete:
  "i \<in> set is \<Longrightarrow> match_alts E q i triggers = Some m \<Longrightarrow> \<exists>m'. first_match E q is = Some m'"
  by (induction "is") (auto split: option.splits)

lemma re_search_sound:
  assumes "re_search E q = Some m"
  shows "\<exists>t. trigger_at q (g1_start m) t \<and> g1_end m = g1_start m + length t
           \<and> g1_end m \<le> g2_start m
           \<and> same_line q (g1_end m) (g2_start m)
           \<and> standalone_token E q (g2_start m) (g2_end m - g2_start m)
           \<and> (\<forall>r k. g1_end m \<le> r \<and> r < g2_start m \<longrightarrow> \<not> standalone_token E q r k)"
proof -
  from assms obtain i where "match_alts E q i triggers = Some m"
    by (auto simp: re_search_def dest: first_match_sound)
  then obtain t k where t: "t \<in> set triggers" "prefix t (drop i q)"
    and g: "g1_start m = i" "g1_end m = i + length t" "g2_end m = g2_start m + k"
    and ls: "lazy_scan E q (i + length t) = Some (g2_start m, k)"
    by (blast dest: match_alts_sound)
  from lazy_scan_sound[OF ls]
  have le: "i + length t \<le> g2_start m" and tk: "token_at E q (g2_start m) = Some k"
    and between: "\<forall>r. i + length t \<le> r \<and> r < g2_start m \<longrightarrow>
       r < length q \<and> q ! r \<noteq> 10 \<and> token_at E q r = None"
    by auto
  from between have "same_line q (i + length t) (g2_start m)" by (auto simp: same_line_iff)
  moreover from between have "\<forall>r k. i + length t \<le> r \<and> r < g2_start m \<longrightarrow> \<not> standalone_token E q r k"
    by (auto simp: token_at_iff[symmetric])
  moreover from tk have "standalone_token E q (g2_start m) (g2_end m - g2_start m)"
    using g by (simp add: token_at_iff)
  ultimately show ?thesis using t g le
    by (auto simp: trigger_at_def)
qed

lemma re_search_complete:
  assumes "trigger_at q i t" "i + length t \<le> j" "same_line q (i + length t) j"
    "standalone_token E q j k"
  shows "\<exists>m. re_search E q = Some m"
proof -
  from assms(4) have tk: "token_at E q j = Some k" by (simp add: token_at_iff)
  from assms(4) have "j \<le> length q" by (simp add: standalone_token_def)
  with assms(2) have i: "i \<in> set [0 ..< Suc (length q)]" by (simp del: upt_Suc)
  from lazy_scan_complete[OF tk assms(2,3)] obtain r where "lazy_scan E q (i + length t) = Some r" ..
  with assms(1) obtain m where "match_alts E q i triggers = Some m"
    by (auto simp: trigger_at_def dest: match_alts_complete)
  with i show ?thesis unfolding re_search_def by (rule first_match_complete)
qed

lemma py_upper_AZ: "list_all is_AZ s \<Longrightarrow> py_upper E s = s"
proof -
  assume a: "list_all is_AZ s"
  then have "is_ascii s" by (auto simp: is_ascii_def is_AZ_def list_all_iff)
  moreover from a have "map ascii_upper s = s"
    by (intro map_idI) (auto simp: ascii_upper_def is_AZ_def list_all_iff)
  ultimately show ?thesis by (simp add: py_upper_def)
qed

lemma group2_token:
  "standalone_token E q (g2_start m) (g2_end m - g2_start m) \<Longrightarrow>
     list_all is_AZ (group2 q m) \<and> length (group2 q m) = g2_end m - g2_start m"
  by (auto simp: standalone_token_def group2_def)

lemma sublist_take_drop: "sublist (take k (drop j q)) q"
proof -
  have "q = take j q @ take k (drop j q) @ drop k (drop j q)"
    by (simp only: append_take_drop_id)
  then show ?thesis unfolding sublist_def by blast
qed

lemma classify_match:
  assumes "re_search E q = Some m"
  shows "classify E q = Quote (group2 q m) \<or> classify E q = Historical (group2 q m)"
proof -
  from re_search_sound[OF assms]
  have "standalone_token E q (g2_start m) (g2_end m - g2_start m)" by blast
  then have "py_upper E (group2 q m) = group2 q m"
    by (intro py_upper_AZ) (simp add: group2_token)
  with assms show ?thesis by (simp add: classify_def)
qed

lemma orchestrate_query_dispatch: "orchestrate_query E q = handle E q (classify E q)"
  by (simp add: orchestrate_query_def classify_def news_keywords_def Let_def
      split: option.splits)

lemma trigger_unique:
  assumes "t \<in> set triggers" "t' \<in> set triggers" "prefix t s" "prefix t' s"
  shows "t = t'"
proof -
  from assms(3,4) have "prefix t t' \<or> prefix t' t" by (rule prefix_same_cases)
  with assms(1,2) show ?thesis
    by (auto simp: triggers_def ustr_def)
qed

lemma match_alts_exact:
  assumes "t \<in> set triggers" "prefix t (drop i q)" "set ts \<subseteq> set triggers" "t \<in> set ts"
    "lazy_scan E q (i + length t) = Some (j, k)"
  shows "match_alts E q i ts =
     Some \<lparr>g1_start = i, g1_end = i + length t, g2_start = j, g2_end = j + k\<rparr>"
  using assms(3,4)
proof (induction ts)
  case Nil
  then show ?case by simp
next
  case (Cons a ts)
  show ?case
  proof (cases "prefix a (drop i q)")
    case True
    from Cons.prems have "a \<in> set triggers" by simp
    with assms(1,2) True have "a = t" using trigger_unique by blast
    with assms(2,5) show ?thesis by simp
  next
    case False
    with assms(2) have "a \<noteq> t" by auto
    with Cons False show ?thesis by simp
  qed
qed

lemma match_alts_no_trigger:
  "\<forall>t\<in>set ts. \<not> prefix t (drop i q) \<Longrightarrow> match_alts E q i ts = None"
  by (induction ts) auto

lemma first_match_exact:
  assumes "\<forall>i'<i. match_alts E q i' triggers = None" "match_alts E q i triggers = Some m"
    "i < n"
  shows "first_match E q [a ..< n] = (if a \<le> i then Some m else first_match E q [a ..< n])"
  using assms
proof (induction "n - a" arbitrary: a)
  case 0
  then show ?case by simp
next
  case (Suc d)
  show ?case
  proof (cases "a \<le> i")
    case False
    then show ?thesis by simp
  next
    case True
    with Suc.prems have an: "a < n" by simp
    then have up: "[a ..< n] = a # [Suc a ..< n]" by (rule upt_conv_Cons)
    show ?thesis
    proof (cases "a = i")
      case True
      with Suc.prems up show ?thesis by simp
    next
      case False
      with True have ai: "a < i" by simp
      with Suc.prems have none: "match_alts E q a triggers = None" by simp
      from Suc.hyps have "d = n - Suc a" by simp
      from Suc.hyps(1)[OF this Suc.prems] ai
      have "first_match E q [Suc a ..< n] = Some m" by simp
      with up none True show ?thesis by simp
    qed
  qed
qed

lemma lazy_scan_exact:
  "token_at E q p = Some k \<Longrightarrow> j \<le> p \<Longrightarrow> same_line q j p \<Longrightarrow>
     \<forall>r. j \<le> r \<and> r < p \<longrightarrow> token_at E q r = None \<Longrightarrow>
     lazy_scan E q j = Some (p, k)"
proof (induction "p - j" arbitrary: j)
  case 0
  then have "j = p" by simp
  with "0.prems" show ?case by (subst lazy_scan.simps) simp
next
  case (Suc d)
  from Suc.hyps have jp: "j < p" by simp
  with Suc.prems(4) have None: "token_at E q j = None" by simp
  from Suc.prems(1) have "p \<le> length q"
    by (auto dest!: token_at_sound simp: standalone_token_def)
  with jp have jl: "j < length q" by simp
  with Suc.prems(3) jp have nl: "q ! j \<noteq> 10" by (auto simp: same_line_iff)
  from Suc.prems(3) have sl: "same_line q (Suc j) p" by (auto simp: same_line_iff)
  from Suc.hyps have "d = p - Suc j" by simp
  from Suc.hyps(1)[OF this Suc.prems(1) _ sl] jp Suc.prems(4)
  have "lazy_scan E q (Suc j) = Some (p, k)" by simp
  with None jl nl show ?case by (subst lazy_scan.simps) simp
qed

lemma re_search_exact:
  assumes "trigger_at q i t" "\<forall>i' t'. i' < i \<longrightarrow> \<not> trigger_at q i' t'"
    "i + length t \<le> j" "same_line q (i + length t) j" "standalone_token E q j k"
    "\<forall>r k'. i + length t \<le> r \<and> r < j \<longrightarrow> \<not> standalone_token E q r k'"
  shows "re_search E q =
     Some \<lparr>g1_start = i, g1_end = i + length t, g2_start = j, g2_end = j + k\<rparr>"
proof -
  let ?m = "\<lparr>g1_start = i, g1_end = i + length t, g2_start = j, g2_end = j + k\<rparr>"
  from assms(5) have tk: "token_at E q j = Some k" by (simp add: token_at_iff)
  from assms(6) have "\<forall>r. i + length t \<le> r \<and> r < j \<longrightarrow> token_at E q r = None"
    by (metis token_at_iff not_Some_eq)
  with tk assms(3,4) have ls: "lazy_scan E q (i + length t) = Some (j, k)"
    by (intro lazy_scan_exact)
  from assms(1) have t: "t \<in> set triggers" "prefix t (drop i q)"
    by (simp_all add: trigger_at_def)
  with ls have m: "match_alts E q i triggers = Some ?m"
    by (intro match_alts_exact) simp_all
  from assms(2) have none: "\<forall>i'<i. match_alts E q i' triggers = None"
    by (auto simp: trigger_at_def intro!: match_alts_no_trigger)
  from assms(5) have "j \<le> length q" by (simp add: standalone_token_def)
  with assms(3) have "i < Suc (length q)" by simp
  from first_match_exact[OF none m this, of 0] show ?thesis
    by (simp add: re_search_def del: upt_Suc)
qed

section \<open>Ticker extraction and rule priority\<close>

lemma standalone_first_AZ: "standalone_token E q r k \<Longrightarrow> r < length q \<and> is_AZ (q ! r)"
proof -
  assume a: "standalone_token E q r k"
  then have "0 < k" "r + k \<le> length q" "list_all is_AZ (take k (drop r q))"
    by (simp_all add: standalone_token_def)
  then show ?thesis by (auto simp: list_all_length dest!: spec[of _ 0])
qed

text \<open>
  Claim C7 (amended). Whenever a trigger word is followed on the same line (no newline
  between the end of the trigger word and the token) by a standalone token of one to
  five uppercase letters, classification extracts a ticker. When that trigger
  occurrence is the leftmost one in the query and the token is the first standalone
  token after it, the ticker is exactly that token. Every ticker that classification
  extracts is the text of a standalone token of the query that starts at or after the
  end of a trigger word, on the same line, with no standalone token between the two:
  it occurs verbatim in the query, never before the trigger word, and is never
  fabricated.
\<close>

theorem ticker_extraction:
  "(trigger_at q i t \<and> i + length t \<le> j \<and> same_line q (i + length t) j
      \<and> standalone_token E q j k
     \<longrightarrow> (\<exists>tk. classify E q = Quote tk \<or> classify E q = Historical tk))
   \<and> (trigger_at q i t \<and> (\<forall>i' t'. i' < i \<longrightarrow> \<not> trigger_at q i' t')
      \<and> i + length t \<le> j \<and> same_line q (i + length t) j \<and> standalone_token E q j k
      \<and> (\<forall>r k'. i + length t \<le> r \<and> r < j \<longrightarrow> \<not> standalone_token E q r k')
     \<longrightarrow> classify E q = Quote (take k (drop j q))
         \<or> classify E q = Historical (take k (drop j q)))
   \<and> (classify E q = Quote tk \<or> classify E q = Historical tk
     \<longrightarrow> (\<exists>m t'. re_search E q = Some m
           \<and> tk = take (g2_end m - g2_start m) (drop (g2_start m) q)
           \<and> trigger_at q (g1_start m) t'
           \<and> g1_start m + length t' \<le> g2_start m
           \<and> same_line q (g1_start m + length t') (g2_start m)
           \<and> standalone_token E q (g2_start m) (g2_end m - g2_start m)
           \<and> (\<forall>r k'. g1_start m + length t' \<le> r \<and> r < g2_start m
                 \<longrightarrow> \<not> standalone_token E q r k')
           \<and> contains q tk))
   \<and> orchestrate_query E q = handle E q (classify E q)"
proof (intro conjI impI)
  show "orchestrate_query E q = handle E q (classify E q)"
    by (rule orchestrate_query_dispatch)
next
  assume "trigger_at q i t \<and> i + length t \<le> j \<and> same_line q (i + length t) j
      \<and> standalone_token E q j k"
  then obtain m where "re_search E q = Some m" using re_search_complete by blast
  then show "\<exists>tk. classify E q = Quote tk \<or> classify E q = Historical tk"
    using classify_match by blast
next
  assume a: "trigger_at q i t \<and> (\<forall>i' t'. i' < i \<longrightarrow> \<not> trigger_at q i' t')
      \<and> i + length t \<le> j \<and> same_line q (i + length t) j \<and> standalone_token E q j k
      \<and> (\<forall>r k'. i + length t \<le> r \<and> r < j \<longrightarrow> \<not> standalone_token E q r k')"
  let ?m = "\<lparr>g1_start = i, g1_end = i + length t, g2_start = j, g2_end = j + k\<rparr>"
  from a have "re_search E q = Some ?m" by (intro re_search_exact) simp_all
  from classify_match[OF this]
  show "classify E q = Quote (take k (drop j q)) \<or> classify E q = Historical (take k (drop j q))"
    by (simp add: group2_def)
next
  assume c: "classify E q = Quote tk \<or> classify E q = Historical tk"
  then obtain m where m: "re_search E q = Some m"
    by (cases "re_search E q") (auto simp: classify_def split: if_splits)
  from classify_match[OF m] c have tk: "tk = group2 q m" by auto
  from re_search_sound[OF m] obtain t' where
    "trigger_at q (g1_start m) t'" "g1_end m = g1_start m + length t'"
    "g1_end m \<le> g2_start m" "same_line q (g1_end m) (g2_start m)"
    "standalone_token E q (g2_start m) (g2_end m - g2_start m)"
    "\<forall>r k. g1_end m \<le> r \<and> r < g2_start m \<longrightarrow> \<not> standalone_token E q r k"
    by blast
  moreover have "contains q tk"
    unfolding tk group2_def contains_def by (rule sublist_take_drop)
  ultimately show "\<exists>m t'. re_search E q = Some m
           \<and> tk = take (g2_end m - g2_start m) (drop (g2_start m) q)
           \<and> trigger_at q (g1_start m) t'
           \<and> g1_start m + length t' \<le> g2_start m
           \<and> same_line q (g1_start m + length t') (g2_start m)
           \<and> standalone_token E q (g2_start m) (g2_end m - g2_start m)
           \<and> (\<forall>r k'. g1_start m + length t' \<le> r \<and> r < g2_start m
                 \<longrightarrow> \<not> standalone_token E q r k')
           \<and> contains q tk"
    using m tk by (auto simp: group2_def)
qed

theorem ticker_extraction_witness:
  "trigger_at (ustr ''quote IBM'') 0 (ustr ''quote'')
   \<and> same_line (ustr ''quote IBM'') 5 6
   \<and> standalone_token sample_env (ustr ''quote IBM'') 6 3
   \<and> classify sample_env (ustr ''quote IBM'') = Quote (ustr ''IBM'')
   \<and> re_search sample_env (ustr ''quote IBM'')
       = Some \<lparr>g1_start = 0, g1_end = 5, g2_start = 6, g2_end = 9\<rparr>
   \<and> contains (ustr ''quote IBM'') (ustr ''IBM'')"
proof -
  let ?q = "ustr ''quote IBM''"
  note T = ticker_extraction[of ?q 0 "ustr ''quote''" 6 sample_env 3 "ustr ''IBM''"]
  have h1: "trigger_at ?q 0 (ustr ''quote'')" by code_simp
  have h0: "\<forall>i' t'. i' < (0::nat) \<longrightarrow> \<not> trigger_at ?q i' t'" by simp
  have h2: "0 + length (ustr ''quote'') \<le> (6::nat)" by (simp add: ustr_def)
  have h3: "same_line ?q (0 + length (ustr ''quote'')) 6" by code_simp
  have h4: "standalone_token sample_env ?q 6 3" by code_simp
  have h5: "\<forall>r k'. 0 + length (ustr ''quote'') \<le> r \<and> r < 6 \<longrightarrow> \<not> standalone_token sample_env ?q r k'"
  proof (intro allI impI)
    fix r k' assume "0 + length (ustr ''quote'') \<le> r \<and> r < 6"
    then have "r = 5" by (simp add: ustr_def)
    moreover have "\<not> is_AZ (?q ! 5)" by code_simp
    ultimately show "\<not> standalone_token sample_env ?q r k'"
      using standalone_first_AZ by blast
  qed
  have a: "\<exists>tk. classify sample_env ?q = Quote tk \<or> classify sample_env ?q = Historical tk"
    by (rule T[THEN conjunct1, THEN mp]) (intro conjI h1 h2 h3 h4)
  have b: "classify sample_env ?q = Quote (take 3 (drop 6 ?q))
        \<or> classify sample_env ?q = Historical (take 3 (drop 6 ?q))"
    by (rule T[THEN conjunct2, THEN conjunct1, THEN mp]) (intro conjI h0 h1 h2 h3 h4 h5)
  have c: "classify sample_env ?q = Quote (ustr ''IBM'')" by code_simp
  have d: "\<exists>m t'. re_search sample_env ?q = Some m
           \<and> ustr ''IBM'' = take (g2_end m - g2_start m) (drop (g2_start m) ?q)
           \<and> trigger_at ?q (g1_start m) t'
           \<and> g1_start m + length t' \<le> g2_start m
           \<and> same_line ?q (g1_start m + length t') (g2_start m)
           \<and> standalone_token sample_env ?q (g2_start m) (g2_end m - g2_start m)
           \<and> (\<forall>r k'. g1_start m + length t' \<le> r \<and> r < g2_start m
                 \<longrightarrow> \<not> standalone_token sample_env ?q r k')
           \<and> contains ?q (ustr ''IBM'')"
    by (rule T[THEN conjunct2, THEN conjunct2, THEN conjunct1, THEN mp]) (simp add: c)
  from d have e: "contains ?q (ustr ''IBM'')" by blast
  have f: "re_search sample_env ?q
       = Some \<lparr>g1_start = 0, g1_end = 5, g2_start = 6, g2_end = 9\<rparr>" by code_simp
  have g: "same_line ?q 5 6" by code_simp
  show ?thesis by (intro conjI h1 g h4 c f e)
qed

text \<open>
  Claim C7 as stated fails when a newline separates the trigger word and the token:
  in \<open>"price\nAAPL"\<close> the trigger word \<open>price\<close> is followed later in the
  string by the standalone token \<open>AAPL\<close>, yet the pattern does not match and no
  ticker is extracted.
\<close>

theorem ticker_extraction_counterexample:
  "trigger_at (ustr ''price\<newline>AAPL'') 0 (ustr ''price'')
   \<and> 0 + length (ustr ''price'') \<le> 6
   \<and> standalone_token sample_env (ustr ''price\<newline>AAPL'') 6 4
   \<and> re_search sample_env (ustr ''price\<newline>AAPL'') = None
   \<and> classify sample_env (ustr ''price\<newline>AAPL'') = Unclassified"
  by code_simp

text \<open>
  Claim C6 (amended). A query in which a trigger word is followed on the same line by a
  standalone token of one to five uppercase letters, and which also contains a news
  keyword, takes the quote or historical path, never the news path.
\<close>

theorem quote_rule_priority:
  assumes "trigger_at q i t" and "i + length t \<le> j" and "same_line q (i + length t) j"
    and "standalone_token E q j k"
    and "list_ex (contains (py_lower E q)) news_keywords"
  shows "(\<exists>tk. classify E q = Quote tk \<or> classify E q = Historical tk)
     \<and> (\<forall>topic. classify E q \<noteq> News topic)
     \<and> orchestrate_query E q = handle E q (classify E q)"
proof -
  from assms(1-4) obtain m where "re_search E q = Some m" using re_search_complete by blast
  from classify_match[OF this]
  have "classify E q = Quote (group2 q m) \<or> classify E q = Historical (group2 q m)" .
  then show ?thesis using orchestrate_query_dispatch[of E q] by auto
qed

theorem quote_rule_priority_witness:
  "trigger_at (ustr ''latest news and price of AAPL'') 16 (ustr ''price'')
   \<and> same_line (ustr ''latest news and price of AAPL'') 21 25
   \<and> standalone_token sample_env (ustr ''latest news and price of AAPL'') 25 4
   \<and> list_ex (contains (py_lower sample_env (ustr ''latest news and price of AAPL''))) news_keywords
   \<and> classify sample_env (ustr ''latest news and price of AAPL'') = Quote (ustr ''AAPL'')
   \<and> orchestrate_query sample_env (ustr ''latest news and price of AAPL'')
       = quote_path sample_env (ustr ''AAPL'')"
proof -
  let ?q = "ustr ''latest news and price of AAPL''"
  have h1: "trigger_at ?q 16 (ustr ''price'')" by code_simp
  have h2: "16 + length (ustr ''price'') \<le> 25" by (simp add: ustr_def)
  have h3: "same_line ?q (16 + length (ustr ''price'')) 25" by code_simp
  have h4: "standalone_token sample_env ?q 25 4" by code_simp
  have h5: "list_ex (contains (py_lower sample_env ?q)) news_keywords" by code_simp
  have c: "classify sample_env ?q = Quote (ustr ''AAPL'')" by code_simp
  have s: "same_line ?q 21 25" by code_simp
  from quote_rule_priority[OF h1 h2 h3 h4 h5] c
  have "orchestrate_query sample_env ?q = quote_path sample_env (ustr ''AAPL'')" by simp
  with h1 s h4 h5 c show ?thesis by simp
qed

text \<open>
  Claim C6 as stated fails when a newline separates the trigger word and the token:
  \<open>"news price\nAAPL"\<close> contains the trigger word \<open>price\<close> followed later by
  the standalone token \<open>AAPL\<close> and the keyword \<open>news\<close>, and takes the news path.
\<close>

theorem quote_rule_priority_counterexample:
  "trigger_at (ustr ''news price\<newline>AAPL'') 5 (ustr ''price'')
   \<and> 5 + length (ustr ''price'') \<le> 11
   \<and> standalone_token sample_env (ustr ''news price\<newline>AAPL'') 11 4
   \<and> list_ex (contains (py_lower sample_env (ustr ''news price\<newline>AAPL''))) news_keywords
   \<and> classify sample_env (ustr ''news price\<newline>AAPL'') = News (ustr ''news price\<newline>aapl'')"
  by code_simp

section \<open>Retrieval confidence\<close>

lemma sum_list_unit_bounds:
  "\<forall>x\<in>set xs. 0 \<le> f x \<and> f x \<le> (1::real) \<Longrightarrow>
     0 \<le> sum_list (map f xs) \<and> sum_list (map f xs) \<le> real (length xs)"
  by (induction xs) auto

lemma mean_unit_bounds:
  assumes "xs \<noteq> []" "\<forall>x\<in>set xs. 0 \<le> f x \<and> f x \<le> (1::real)"
  shows "0 \<le> sum_list (map f xs) / real (length xs) \<and> sum_list (map f xs) / real (length xs) \<le> 1"
proof -
  from assms(1) have pos: "0 < real (length xs)" by simp
  from sum_list_unit_bounds[OF assms(2)]
  have "0 \<le> sum_list (map f xs)" "sum_list (map f xs) \<le> real (length xs)" by simp_all
  with pos show ?thesis by (simp add: divide_le_eq)
qed

text \<open>
  Claim C1. When the index returns matches whose distances are non-negative, the
  confidence \<open>retrieve_info_from_rag\<close> returns is the arithmetic mean of
  \<open>max(0, 1 - d)\<close> over the matches and lies between 0 and 1 (the texts come back
  joined by a blank line); when it returns no match the result is exactly
  \<open>("No relevant documents found.", 0.0)\<close>.
\<close>

theorem retrieval_confidence:
  assumes "create_faiss_index E = None"
    and "similarity_search_with_score E query k = Inr matches"
    and "\<forall>(doc, d)\<in>set matches. 0 \<le> d"
  shows "(matches \<noteq> [] \<longrightarrow>
           (\<exists>conf. retrieve_info_from_rag E query k
                     = Inr (join (ustr ''\<newline>\<newline>'') (map fst matches), conf)
              \<and> conf = (\<Sum>(doc, d)\<leftarrow>matches. max 0 (1 - d)) / real (length matches)
              \<and> 0 \<le> conf \<and> conf \<le> 1))
       \<and> (matches = [] \<longrightarrow>
           retrieve_info_from_rag E query k = Inr (ustr ''No relevant documents found.'', 0))"
proof (intro conjI impI)
  assume ne: "matches \<noteq> []"
  let ?f = "\<lambda>(doc :: pystr, d :: real). max 0 (1 - d)"
  from assms(3) have "\<forall>x\<in>set matches. 0 \<le> ?f x \<and> ?f x \<le> 1" by auto
  from mean_unit_bounds[OF ne this]
  have b: "0 \<le> sum_list (map ?f matches) / real (length matches)"
    "sum_list (map ?f matches) / real (length matches) \<le> 1" by simp_all
  have "retrieve_info_from_rag E query k
      = Inr (join (ustr ''\<newline>\<newline>'') (map fst matches),
             sum_list (map ?f matches) / real (length matches))"
    using assms(1,2) ne by (simp add: retrieve_info_from_rag_def confidence_def[abs_def])
  with b show "\<exists>conf. retrieve_info_from_rag E query k
                     = Inr (join (ustr ''\<newline>\<newline>'') (map fst matches), conf)
              \<and> conf = (\<Sum>(doc, d)\<leftarrow>matches. max 0 (1 - d)) / real (length matches)
              \<and> 0 \<le> conf \<and> conf \<le> 1" by simp
next
  assume "matches = []"
  with assms(1,2) show "retrieve_info_from_rag E query k = Inr (ustr ''No relevant documents found.'', 0)"
    by (simp add: retrieve_info_from_rag_def)
qed

theorem retrieval_confidence_witness:
  "retrieve_info_from_rag
      (sample_env\<lparr>similarity_search_with_score := (\<lambda>q k. Inr two_matches)\<rparr>) (ustr ''define risk'') 2
     = Inr (ustr ''Diversification is a strategy\<newline>\<newline>Risk management'', 0.35)
   \<and> retrieve_info_from_rag sample_env (ustr ''define risk'') 2
     = Inr (ustr ''No relevant documents found.'', 0)"
proof -
  let ?E = "sample_env\<lparr>similarity_search_with_score := (\<lambda>q k. Inr two_matches)\<rparr>"
  let ?q = "ustr ''define risk''"
  have c: "create_faiss_index ?E = None" by (simp add: sample_env_def)
  have s: "similarity_search_with_score ?E ?q 2 = Inr two_matches" by simp
  have p: "\<forall>(doc, d)\<in>set two_matches. 0 \<le> d" by (simp add: two_matches_def)
  have ne: "two_matches \<noteq> []" by (simp add: two_matches_def)
  from retrieval_confidence[OF c s p] ne
  obtain conf where r: "retrieve_info_from_rag ?E ?q 2
      = Inr (join (ustr ''\<newline>\<newline>'') (map fst two_matches), conf)"
    and v: "conf = (\<Sum>(doc, d)\<leftarrow>two_matches. max 0 (1 - d)) / real (length two_matches)"
    by blast
  have j: "join (ustr ''\<newline>\<newline>'') (map fst two_matches)
      = ustr ''Diversification is a strategy\<newline>\<newline>Risk management''"
    by (simp add: two_matches_def ustr_def)
  from v have v': "conf = 0.35" by (simp add: two_matches_def)
  have c0: "create_faiss_index sample_env = None" by (simp add: sample_env_def)
  have s0: "similarity_search_with_score sample_env ?q 2 = Inr []" by (simp add: sample_env_def)
  from retrieval_confidence[OF c0 s0]
  have "retrieve_info_from_rag sample_env ?q 2 = Inr (ustr ''No relevant documents found.'', 0)"
    by simp
  with r j v' show ?thesis by simp
qed

section \<open>The explain path\<close>

text \<open>
  Claim C2. On the explain path, a retrieval confidence of at least 0.7 sends the
  retrieved context together with the query to the generation adapter and the answer
  is prefixed with the found-via-retrieval header; a confidence below 0.7 sends the
  query alone (the retrieved context is not part of the prompt) and the answer is
  prefixed with the low-confidence header.
\<close>

theorem explain_confidence_gate:
  assumes "classify E query = Explain topic"
    and "retrieve_info_from_rag E query 2 = Inr (context, conf)"
  shows "(0.7 \<le> conf \<longrightarrow>
           orchestrate_query E query =
             (case generate_text_with_gemini E
                     (ustr ''Explain this based on context:\<newline>\<newline>'' @ context
                      @ ustr ''\<newline>\<newline>User asked: '' @ query) of
                Inl e \<Rightarrow> Inl e
              | Inr response \<Rightarrow>
                  Inr (JS ([128216] @ ustr '' Here's what I found:\<newline>\<newline>'' @ response))))
       \<and> (conf < 0.7 \<longrightarrow>
           orchestrate_query E query =
             (case generate_text_with_gemini E (ustr ''Explain this concept: '' @ query) of
                Inl e \<Rightarrow> Inl e
              | Inr response \<Rightarrow>
                  Inr (JS (ustr ''I couldn't find very specific info, but here's what I know:\<newline>\<newline>''
                           @ response))))"
proof -
  from assms(1) have "topic = query"
    by (auto simp: classify_def split: option.splits if_splits)
  with assms(1) have "orchestrate_query E query = explain_path E query"
    by (simp add: orchestrate_query_dispatch)
  with assms(2) show ?thesis
    unfolding explain_path_def found_header_def low_confidence_header_def
    by (simp split: sum.splits)
qed

theorem explain_confidence_gate_witness:
  "classify low_env (ustr ''Tell me about diversification'')
     = Explain (ustr ''Tell me about diversification'')
   \<and> retrieve_info_from_rag low_env (ustr ''Tell me about diversification'') 2
     = Inr (ustr ''Diversification is a strategy'', 0.42)
   \<and> orchestrate_query low_env (ustr ''Tell me about diversification'')
     = Inr (JS (ustr ''I couldn't find very specific info, but here's what I know:\<newline>\<newline>ok''))
   \<and> retrieve_info_from_rag high_env (ustr ''Tell me about diversification'') 2
     = Inr (ustr ''Diversification is a strategy'', 0.9)
   \<and> orchestrate_query high_env (ustr ''Tell me about diversification'')
     = Inr (JS ([128216] @ ustr '' Here's what I found:\<newline>\<newline>ok''))"
proof -
  let ?q = "ustr ''Tell me about diversification''"
  have c1: "classify low_env ?q = Explain ?q" by code_simp
  have c2: "classify high_env ?q = Explain ?q" by code_simp
  have r1: "retrieve_info_from_rag low_env ?q 2 = Inr (ustr ''Diversification is a strategy'', 0.42)"
    by (simp add: retrieve_info_from_rag_def low_env_def sample_env_def confidence_def)
  have r2: "retrieve_info_from_rag high_env ?q 2 = Inr (ustr ''Diversification is a strategy'', 0.9)"
    by (simp add: retrieve_info_from_rag_def high_env_def sample_env_def confidence_def)
  have g1: "generate_text_with_gemini low_env = (\<lambda>p. Inr (ustr ''ok''))"
    by (simp add: low_env_def sample_env_def)
  have g2: "generate_text_with_gemini high_env = (\<lambda>p. Inr (ustr ''ok''))"
    by (simp add: high_env_def sample_env_def)
  from explain_confidence_gate[OF c1 r1]
  have o1: "orchestrate_query low_env ?q
     = Inr (JS (ustr ''I couldn't find very specific info, but here's what I know:\<newline>\<newline>ok''))"
    by (simp add: g1 ustr_def)
  from explain_confidence_gate[OF c2 r2]
  have o2: "orchestrate_query high_env ?q
     = Inr (JS ([128216] @ ustr '' Here's what I found:\<newline>\<newline>ok''))"
    by (simp add: g2 ustr_def)
  show ?thesis by (intro conjI c1 r1 o1 r2 o2)
qed

section \<open>The quote scenario\<close>

lemma tsla_classify: "classify E (ustr ''What's the price of TSLA?'') = Quote (ustr ''TSLA'')"
  by code_simp

lemma py_get_Some_has_key: "py_get d k = Some v \<Longrightarrow> has_key d k \<and> d \<noteq> [] \<and> subscript d k = Inr v"
  by (auto simp: py_get_def has_key_def subscript_def)

text \<open>
  Claim C8. The query \<open>"What's the price of TSLA?"\<close> is classified as a quote
  request for \<open>TSLA\<close>; on a successful quote payload (no provider signal, a
  non-empty \<open>"Global Quote"\<close> object) the answer starts with the line
  \<open>"\<dots> TSLA Stock Quote:"\<close> (the chart emoji first) and lists Open, High, Low,
  Price, Volume and Last Trading Day in this order.
\<close>

theorem tsla_quote_scenario:
  "classify E (ustr ''What's the price of TSLA?'') = Quote (ustr ''TSLA'')
   \<and> (get_stock_quote E (ustr ''TSLA'') = Inr data
        \<and> provider_signal data = None
        \<and> py_get data (ustr ''Global Quote'') = Some (JD quote_info) \<and> quote_info \<noteq> []
      \<longrightarrow> orchestrate_query E (ustr ''What's the price of TSLA?'')
            = Inr (JS ([128200] @ ustr '' TSLA Stock Quote:\<newline>''
                @ ustr ''Open: '' @ py_str E (py_get quote_info (ustr ''02. open''))
                @ ustr ''\<newline>High: '' @ py_str E (py_get quote_info (ustr ''03. high''))
                @ ustr ''\<newline>Low: '' @ py_str E (py_get quote_info (ustr ''04. low''))
                @ ustr ''\<newline>Price: '' @ py_str E (py_get quote_info (ustr ''05. price''))
                @ ustr ''\<newline>Volume: '' @ py_str E (py_get quote_info (ustr ''06. volume''))
                @ ustr ''\<newline>Last Trading Day: ''
                @ py_str E (py_get quote_info (ustr ''07. latest trading day'')))))"
proof (intro conjI impI)
  show "classify E (ustr ''What's the price of TSLA?'') = Quote (ustr ''TSLA'')"
    by (rule tsla_classify)
next
  assume a: "get_stock_quote E (ustr ''TSLA'') = Inr data
        \<and> provider_signal data = None
        \<and> py_get data (ustr ''Global Quote'') = Some (JD quote_info) \<and> quote_info \<noteq> []"
  then have n: "\<not> truthy_opt (py_get data (ustr ''Note''))"
    and i: "\<not> truthy_opt (py_get data (ustr ''Information''))"
    by (auto simp: provider_signal_def truthy_opt_def split: if_splits option.splits)
  from a have g: "has_key data (ustr ''Global Quote'')" "data \<noteq> []"
    "subscript data (ustr ''Global Quote'') = Inr (JD quote_info)"
    using py_get_Some_has_key by blast+
  from a have t: "truthy_opt (py_get data (ustr ''Global Quote''))"
    by (simp add: truthy_opt_def)
  have "orchestrate_query E (ustr ''What's the price of TSLA?'') = quote_path E (ustr ''TSLA'')"
    by (simp add: orchestrate_query_dispatch tsla_classify)
  also have "\<dots> = Inr (JS ([128200] @ ustr '' TSLA Stock Quote:\<newline>''
                @ ustr ''Open: '' @ py_str E (py_get quote_info (ustr ''02. open''))
                @ ustr ''\<newline>High: '' @ py_str E (py_get quote_info (ustr ''03. high''))
                @ ustr ''\<newline>Low: '' @ py_str E (py_get quote_info (ustr ''04. low''))
                @ ustr ''\<newline>Price: '' @ py_str E (py_get quote_info (ustr ''05. price''))
                @ ustr ''\<newline>Volume: '' @ py_str E (py_get quote_info (ustr ''06. volume''))
                @ ustr ''\<newline>Last Trading Day: ''
                @ py_str E (py_get quote_info (ustr ''07. latest trading day''))))"
    unfolding quote_path_def using a n i g t by (simp add: ustr_def)
  finally show "orchestrate_query E (ustr ''What's the price of TSLA?'')
            = Inr (JS ([128200] @ ustr '' TSLA Stock Quote:\<newline>''
                @ ustr ''Open: '' @ py_str E (py_get quote_info (ustr ''02. open''))
                @ ustr ''\<newline>High: '' @ py_str E (py_get quote_info (ustr ''03. high''))
                @ ustr ''\<newline>Low: '' @ py_str E (py_get quote_info (ustr ''04. low''))
                @ ustr ''\<newline>Price: '' @ py_str E (py_get quote_info (ustr ''05. price''))
                @ ustr ''\<newline>Volume: '' @ py_str E (py_get quote_info (ustr ''06. volume''))
                @ ustr ''\<newline>Last Trading Day: ''
                @ py_str E (py_get quote_info (ustr ''07. latest trading day''))))" .
qed

theorem tsla_quote_scenario_witness:
  "orchestrate_query (sample_env\<lparr>get_stock_quote := (\<lambda>t. Inr tsla_payload)\<rparr>)
      (ustr ''What's the price of TSLA?'')
     = Inr (JS ([128200] @ ustr '' TSLA Stock Quote:\<newline>Open: 250.10\<newline>High: 255.00\<newline>Low: 248.50\<newline>Price: 252.30\<newline>Volume: 1000000\<newline>Last Trading Day: 2024-05-01''))"
proof -
  let ?E = "sample_env\<lparr>get_stock_quote := (\<lambda>t. Inr tsla_payload)\<rparr>"
  let ?qi = "[(ustr ''01. symbol'', JS (ustr ''TSLA'')),
           (ustr ''02. open'', JS (ustr ''250.10'')),
           (ustr ''03. high'', JS (ustr ''255.00'')),
           (ustr ''04. low'', JS (ustr ''248.50'')),
           (ustr ''05. price'', JS (ustr ''252.30'')),
           (ustr ''06. volume'', JS (ustr ''1000000'')),
           (ustr ''07. latest trading day'', JS (ustr ''2024-05-01''))]"
  have h1: "get_stock_quote ?E (ustr ''TSLA'') = Inr tsla_payload" by simp
  have h2: "provider_signal tsla_payload = None" by code_simp
  have h3: "py_get tsla_payload (ustr ''Global Quote'') = Some (JD ?qi)" by code_simp
  have h4: "?qi \<noteq> []" by simp
  have "orchestrate_query ?E (ustr ''What's the price of TSLA?'')
            = Inr (JS ([128200] @ ustr '' TSLA Stock Quote:\<newline>''
                @ ustr ''Open: '' @ py_str ?E (py_get ?qi (ustr ''02. open''))
                @ ustr ''\<newline>High: '' @ py_str ?E (py_get ?qi (ustr ''03. high''))
                @ ustr ''\<newline>Low: '' @ py_str ?E (py_get ?qi (ustr ''04. low''))
                @ ustr ''\<newline>Price: '' @ py_str ?E (py_get ?qi (ustr ''05. price''))
                @ ustr ''\<newline>Volume: '' @ py_str ?E (py_get ?qi (ustr ''06. volume''))
                @ ustr ''\<newline>Last Trading Day: ''
                @ py_str ?E (py_get ?qi (ustr ''07. latest trading day''))))"
    by (rule tsla_quote_scenario[of ?E tsla_payload ?qi, THEN conjunct2, THEN mp])
      (intro conjI h1 h2 h3 h4)
  then show ?thesis by (simp add: py_get_def py_str_def ustr_def)
qed

section \<open>The news path\<close>

lemma split_lines_no_newline: "10 \<notin> set l \<Longrightarrow> split_lines l = [l]"
  by (induction l) auto

lemma split_lines_append: "10 \<notin> set l \<Longrightarrow> split_lines (l @ 10 # rest) = l # split_lines rest"
  by (induction l) auto

lemma join_lines: "xs \<noteq> [] \<Longrightarrow> join [10] xs = hd xs @ concat (map (\<lambda>x. 10 # x) (tl xs))"
  by (induction "[10::nat]" xs rule: join.induct) auto

lemma split_lines_items:
  "\<forall>x\<in>set xs. 10 \<notin> set x \<Longrightarrow> 10 \<notin> set l \<Longrightarrow>
     split_lines (l @ concat (map (\<lambda>x. 10 # x) xs)) = l # xs"
proof (induction xs arbitrary: l)
  case Nil
  then show ?case by (simp add: split_lines_no_newline)
next
  case (Cons x xs)
  then have "split_lines (x @ concat (map (\<lambda>x. 10 # x) xs)) = x # xs" by simp
  with Cons.prems show ?case by (simp add: split_lines_append)
qed

text \<open>
  Claim C9. When the news collaborator returns \<open>n \<ge> 1\<close> headlines, the answer is
  the header followed, for each headline in the collaborator's order, by a newline and
  the headline prefixed with \<open>"- "\<close>; for headlines that are single lines its lines
  are the header line and exactly \<open>n\<close> lines, each prefixed \<open>"- "\<close>. When the
  collaborator returns no headline the answer is the fallback text.
\<close>

theorem news_headlines:
  assumes "classify E query = News topic"
    and "get_financial_news_mock E topic = Inr news"
  shows "(news \<noteq> [] \<longrightarrow>
           (\<exists>out. orchestrate_query E query = Inr (JS out)
              \<and> out = [128240] @ ustr '' Latest News:''
                       @ concat (map (\<lambda>h. ustr ''\<newline>- '' @ h) news)
              \<and> ((\<forall>h\<in>set news. 10 \<notin> set h) \<longrightarrow>
                    split_lines out
                      = ([128240] @ ustr '' Latest News:'') # map (\<lambda>h. ustr ''- '' @ h) news
                    \<and> length (split_lines out) = Suc (length news))))
       \<and> (news = [] \<longrightarrow>
           orchestrate_query E query
             = Inr (JS ([9888, 65039] @ ustr '' Could not retrieve financial news at this time.'')))"
proof -
  from assms(1) have o: "orchestrate_query E query = news_path E topic"
    by (simp add: orchestrate_query_dispatch)
  let ?hdr = "[128240] @ ustr '' Latest News:''"
  let ?items = "map (\<lambda>h. ustr ''- '' @ h) news"
  show ?thesis
  proof (intro conjI impI)
    assume ne: "news \<noteq> []"
    let ?out = "[128240] @ ustr '' Latest News:'' @ concat (map (\<lambda>h. ustr ''\<newline>- '' @ h) news)"
    have c: "concat (map (\<lambda>h. ustr ''\<newline>- '' @ h) news) = concat (map (\<lambda>x. 10 # x) ?items)"
      by (simp add: ustr_def comp_def)
    from ne have "?items \<noteq> []" by simp
    from join_lines[OF this] ne
    have j: "[128240] @ ustr '' Latest News:\<newline>'' @ join (ustr ''\<newline>'') ?items = ?out"
      by (cases news) (simp_all add: ustr_def comp_def)
    from o assms(2) ne j have r: "orchestrate_query E query = Inr (JS ?out)"
      by (simp add: news_path_def)
    have l: "(\<forall>h\<in>set news. 10 \<notin> set h) \<longrightarrow>
        split_lines ?out = ?hdr # ?items \<and> length (split_lines ?out) = Suc (length news)"
    proof
      assume nl: "\<forall>h\<in>set news. 10 \<notin> set h"
      then have "\<forall>x\<in>set ?items. 10 \<notin> set x" by (auto simp: ustr_def)
      moreover have "10 \<notin> set ?hdr" by (simp add: ustr_def)
      ultimately have "split_lines (?hdr @ concat (map (\<lambda>x. 10 # x) ?items)) = ?hdr # ?items"
        by (rule split_lines_items)
      then have "split_lines ?out = ?hdr # ?items" by (simp only: c append_assoc)
      then show "split_lines ?out = ?hdr # ?items \<and> length (split_lines ?out) = Suc (length news)"
        by simp
    qed
    from r l show "\<exists>out. orchestrate_query E query = Inr (JS out)
              \<and> out = ?out
              \<and> ((\<forall>h\<in>set news. 10 \<notin> set h) \<longrightarrow>
                    split_lines out = ?hdr # ?items
                    \<and> length (split_lines out) = Suc (length news))"
      by blast
  next
    assume "news = []"
    with o assms(2) show "orchestrate_query E query
             = Inr (JS ([9888, 65039] @ ustr '' Could not retrieve financial news at this time.''))"
      by (simp add: news_path_def warning_sign_def)
  qed
qed

theorem news_headlines_witness:
  "classify (repo_env no_provider sample_env) (ustr ''news about AAPL'') = News (ustr ''aapl'')
   \<and> get_financial_news_mock (repo_env no_provider sample_env) (ustr ''aapl'')
       = Inr [ustr ''Apple announces record quarterly earnings, driven by iPhone sales.'',
              ustr ''Analysts raise price targets for AAPL after new product unveiling.'',
              ustr ''Apple faces antitrust scrutiny in Europe.'']
   \<and> split_lines (case orchestrate_query (repo_env no_provider sample_env) (ustr ''news about AAPL'') of
                    Inr (JS out) \<Rightarrow> out | _ \<Rightarrow> [])
       = [[128240] @ ustr '' Latest News:'',
          ustr ''- Apple announces record quarterly earnings, driven by iPhone sales.'',
          ustr ''- Analysts raise price targets for AAPL after new product unveiling.'',
          ustr ''- Apple faces antitrust scrutiny in Europe.'']
   \<and> orchestrate_query sample_env (ustr ''any headlines?'')
       = Inr (JS ([9888, 65039] @ ustr '' Could not retrieve financial news at this time.''))"
proof -
  let ?E = "repo_env no_provider sample_env"
  let ?q = "ustr ''news about AAPL''"
  let ?news = "[ustr ''Apple announces record quarterly earnings, driven by iPhone sales.'',
              ustr ''Analysts raise price targets for AAPL after new product unveiling.'',
              ustr ''Apple faces antitrust scrutiny in Europe.'']"
  have c: "classify ?E ?q = News (ustr ''aapl'')" by code_simp
  have n: "get_financial_news_mock ?E (ustr ''aapl'') = Inr ?news" by code_simp
  have ne: "?news \<noteq> []" by simp
  have nl: "\<forall>h\<in>set ?news. 10 \<notin> set h" by (simp add: ustr_def)
  from news_headlines[OF c n] ne nl
  obtain out where o: "orchestrate_query ?E ?q = Inr (JS out)"
    and s: "split_lines out = ([128240] @ ustr '' Latest News:'') # map (\<lambda>h. ustr ''- '' @ h) ?news"
    by blast
  from s have s': "split_lines out = [[128240] @ ustr '' Latest News:'',
          ustr ''- Apple announces record quarterly earnings, driven by iPhone sales.'',
          ustr ''- Analysts raise price targets for AAPL after new product unveiling.'',
          ustr ''- Apple faces antitrust scrutiny in Europe.'']"
    by (simp add: ustr_def)
  have c0: "classify sample_env (ustr ''any headlines?'') = News (ustr ''any headlines?'')"
    by code_simp
  have n0: "get_financial_news_mock sample_env (ustr ''any headlines?'') = Inr []"
    by (simp add: sample_env_def)
  from news_headlines[OF c0 n0]
  have f: "orchestrate_query sample_env (ustr ''any headlines?'')
       = Inr (JS ([9888, 65039] @ ustr '' Could not retrieve financial news at this time.''))"
    by simp
  from o s' have "split_lines (case orchestrate_query ?E ?q of Inr (JS out) \<Rightarrow> out | _ \<Rightarrow> [])
       = [[128240] @ ustr '' Latest News:'',
          ustr ''- Apple announces record quarterly earnings, driven by iPhone sales.'',
          ustr ''- Analysts raise price targets for AAPL after new product unveiling.'',
          ustr ''- Apple faces antitrust scrutiny in Europe.'']"
    by simp
  with c n f show ?thesis by (intro conjI)
qed

section \<open>Provider signals on the quote and historical paths\<close>

lemma py_get_subscript: "py_get d k = Some v \<Longrightarrow> subscript d k = Inr v"
  by (simp add: py_get_def subscript_def)

lemma provider_signal_Some:
  assumes "provider_signal data = Some msg"
  shows "(if truthy_opt (py_get data (ustr ''Note'')) then subscript data (ustr ''Note'')
          else if truthy_opt (py_get data (ustr ''Information''))
          then subscript data (ustr ''Information'') else x) = Inr msg"
  using assms by (auto simp: provider_signal_def py_get_subscript split: if_splits)

lemma provider_signal_None:
  assumes "provider_signal data = None"
  shows "\<not> truthy_opt (py_get data (ustr ''Note''))"
    and "\<not> truthy_opt (py_get data (ustr ''Information''))"
  using assms by (auto simp: provider_signal_def truthy_opt_def split: if_splits option.splits)

text \<open>
  Claim C4. On the quote path and on the historical path, when the collaborator's
  response carries a provider signal (a truthy \<open>"Note"\<close>, or else a truthy
  \<open>"Information"\<close>), the dispatcher returns exactly that value as the answer.
\<close>

theorem provider_signal_passthrough:
  "(classify E query = Quote t \<and> get_stock_quote E t = Inr data
      \<and> provider_signal data = Some msg
     \<longrightarrow> orchestrate_query E query = Inr msg)
   \<and> (classify E query = Historical t \<and> get_historical_data E t = Inr data
      \<and> provider_signal data = Some msg
     \<longrightarrow> orchestrate_query E query = Inr msg)"
proof (intro conjI impI)
  assume a: "classify E query = Quote t \<and> get_stock_quote E t = Inr data
      \<and> provider_signal data = Some msg"
  then have "orchestrate_query E query = quote_path E t"
    by (simp add: orchestrate_query_dispatch)
  also from a have "\<dots> = Inr msg"
    unfolding quote_path_def by (simp add: provider_signal_Some)
  finally show "orchestrate_query E query = Inr msg" .
next
  assume a: "classify E query = Historical t \<and> get_historical_data E t = Inr data
      \<and> provider_signal data = Some msg"
  then have "orchestrate_query E query = historical_path E t"
    by (simp add: orchestrate_query_dispatch)
  also from a have "\<dots> = Inr msg"
    unfolding historical_path_def by (simp add: provider_signal_Some)
  finally show "orchestrate_query E query = Inr msg" .
qed

theorem provider_signal_passthrough_witness:
  "orchestrate_query note_env (ustr ''What's the price of TSLA?'')
     = Inr (JS (ustr ''API call frequency is 5 calls per minute.''))
   \<and> orchestrate_query info_env (ustr ''historical performance of IBM'')
     = Inr (JS (ustr ''Please subscribe to a premium plan.''))"
proof -
  let ?n = "[(ustr ''Note'', JS (ustr ''API call frequency is 5 calls per minute.''))]"
  let ?i = "[(ustr ''Information'', JS (ustr ''Please subscribe to a premium plan.''))]"
  have c1: "classify note_env (ustr ''What's the price of TSLA?'') = Quote (ustr ''TSLA'')"
    by code_simp
  have g1: "get_stock_quote note_env (ustr ''TSLA'') = Inr ?n" by (simp add: note_env_def)
  have s1: "provider_signal ?n = Some (JS (ustr ''API call frequency is 5 calls per minute.''))"
    by code_simp
  have c2: "classify info_env (ustr ''historical performance of IBM'') = Historical (ustr ''IBM'')"
    by code_simp
  have g2: "get_historical_data info_env (ustr ''IBM'') = Inr ?i" by (simp add: info_env_def)
  have s2: "provider_signal ?i = Some (JS (ustr ''Please subscribe to a premium plan.''))"
    by code_simp
  have o1: "orchestrate_query note_env (ustr ''What's the price of TSLA?'')
     = Inr (JS (ustr ''API call frequency is 5 calls per minute.''))"
    by (rule provider_signal_passthrough[THEN conjunct1, THEN mp, of _ _ "ustr ''TSLA''" ?n])
      (intro conjI c1 g1 s1)
  have o2: "orchestrate_query info_env (ustr ''historical performance of IBM'')
     = Inr (JS (ustr ''Please subscribe to a premium plan.''))"
    by (rule provider_signal_passthrough[THEN conjunct2, THEN mp, of _ _ "ustr ''IBM''" ?i])
      (intro conjI c2 g2 s2)
  show ?thesis by (intro conjI o1 o2)
qed

section \<open>Historical performance\<close>

lemma has_key_iff: "has_key d k \<longleftrightarrow> k \<in> fst ` set d"
  by (simp add: has_key_def map_of_eq_None_iff)

lemma close_prices_keys:
  "set ds \<subseteq> fst ` set series \<Longrightarrow> close_prices E series ds = Inr ps \<Longrightarrow>
     length ps = length ds
     \<and> (\<forall>i<length ds. \<exists>c. close_of series (ds ! i) = Inr c \<and> py_float E c = Inr (ps ! i))"
proof (induction ds arbitrary: ps)
  case Nil
  then show ?case by simp
next
  case (Cons d ds)
  from Cons.prems(1) have k: "has_key series d" by (simp add: has_key_iff)
  with Cons.prems(2) obtain c p ps' where
    c: "close_of series d = Inr c" and p: "py_float E c = Inr p"
    and r: "close_prices E series ds = Inr ps'" and ps: "ps = p # ps'"
    by (auto split: sum.splits)
  from Cons.prems(1) have "set ds \<subseteq> fst ` set series" by simp
  from Cons.IH[OF this r]
  have ih: "length ps' = length ds"
    "\<forall>i<length ds. \<exists>c. close_of series (ds ! i) = Inr c \<and> py_float E c = Inr (ps' ! i)"
    by simp_all
  have "\<forall>i<length (d # ds). \<exists>c. close_of series ((d # ds) ! i) = Inr c
      \<and> py_float E c = Inr (ps ! i)"
  proof (intro allI impI)
    fix i assume "i < length (d # ds)"
    then show "\<exists>c. close_of series ((d # ds) ! i) = Inr c \<and> py_float E c = Inr (ps ! i)"
      using c p ih ps by (cases i) auto
  qed
  with ih ps show ?case by simp
qed

text \<open>
  Claim C5 (amended). On the historical path, when the response carries no provider
  signal: for a non-empty daily series ordered by recency whose most recent
  \<open>min(7, n)\<close> closes are read as numbers, the prices used are exactly these
  \<open>min(7, n)\<close> closes in order; with two or more days the answer reports
  \<open>(first - last) / last * 100\<close>, \<open>first\<close> the most recent close and
  \<open>last\<close> the oldest of those points (a division, so \<open>last\<close> is not zero);
  with a single day only the latest close is reported; when the series is absent the
  answer is the fallback text naming the ticker.
\<close>

theorem historical_change:
  assumes "classify E query = Historical t"
    and "get_historical_data E t = Inr data"
    and "provider_signal data = None"
  shows "(py_get data (ustr ''Time Series (Daily)'') = Some (JD series) \<and> series \<noteq> []
          \<and> close_prices E series (take 7 (map fst series)) = Inr prices
         \<longrightarrow> length prices = min 7 (length series)
           \<and> (\<forall>i<length prices. \<exists>c. close_of series (fst (series ! i)) = Inr c
                  \<and> py_float E c = Inr (prices ! i))
           \<and> (\<exists>latest_close. close_of series (fst (hd series)) = Inr latest_close
               \<and> (1 < length series \<and> last prices \<noteq> 0 \<longrightarrow>
                    orchestrate_query E query =
                      Inr (JS (ustr ''Historical performance for '' @ t
                        @ ustr '': Latest close on '' @ fst (hd series)
                        @ ustr '' was '' @ py_str E (Some latest_close)
                        @ ustr ''. Over the last '' @ str_nat (min 7 (length series))
                        @ ustr '' days, it changed by ''
                        @ fmt_2f E ((hd prices - last prices) / last prices * 100)
                        @ ustr ''%.'')))
               \<and> (length series = 1 \<longrightarrow>
                    orchestrate_query E query =
                      Inr (JS (ustr ''Latest close for '' @ t @ ustr '' on '' @ fst (hd series)
                        @ ustr '' was '' @ py_str E (Some latest_close) @ ustr ''.'')))))
       \<and> (\<not> truthy_opt (py_get data (ustr ''Time Series (Daily)'')) \<longrightarrow>
            orchestrate_query E query =
              Inr (JS ([9888, 65039] @ ustr '' Could not retrieve historical data for '' @ t
                @ ustr ''.'')))"
proof -
  from assms(1) have o: "orchestrate_query E query = historical_path E t"
    by (simp add: orchestrate_query_dispatch)
  note ns = provider_signal_None[OF assms(3)]
  show ?thesis
  proof (intro conjI impI)
    assume "\<not> truthy_opt (py_get data (ustr ''Time Series (Daily)''))"
    with assms(2) ns show "orchestrate_query E query =
              Inr (JS ([9888, 65039] @ ustr '' Could not retrieve historical data for '' @ t
                @ ustr ''.''))"
      unfolding o historical_path_def by (simp add: warning_sign_def)
  next
    assume a: "py_get data (ustr ''Time Series (Daily)'') = Some (JD series) \<and> series \<noteq> []
          \<and> close_prices E series (take 7 (map fst series)) = Inr prices"
    then have ts: "py_get data (ustr ''Time Series (Daily)'') = Some (JD series)"
      and ne: "series \<noteq> []"
      and cp: "close_prices E series (take 7 (map fst series)) = Inr prices" by simp_all
    have sub: "set (take 7 (map fst series)) \<subseteq> fst ` set series"
      using set_take_subset[of 7 "map fst series"] by auto
    from close_prices_keys[OF sub cp]
    have len: "length prices = min 7 (length series)"
      and each: "\<forall>i<length (take 7 (map fst series)).
         \<exists>c. close_of series (take 7 (map fst series) ! i) = Inr c \<and> py_float E c = Inr (prices ! i)"
      by simp_all
    show "length prices = min 7 (length series)" by (rule len)
    show e: "\<forall>i<length prices. \<exists>c. close_of series (fst (series ! i)) = Inr c
                  \<and> py_float E c = Inr (prices ! i)"
    proof (intro allI impI)
      fix i assume i: "i < length prices"
      with len have "i < length (take 7 (map fst series))" by simp
      with each have "\<exists>c. close_of series (take 7 (map fst series) ! i) = Inr c
          \<and> py_float E c = Inr (prices ! i)" by blast
      moreover from i len have "take 7 (map fst series) ! i = fst (series ! i)" by simp
      ultimately show "\<exists>c. close_of series (fst (series ! i)) = Inr c
          \<and> py_float E c = Inr (prices ! i)" by simp
    qed
    from ne len have "0 < length prices" by simp
    with e obtain lc where lc: "close_of series (fst (series ! 0)) = Inr lc" by blast
    from ne have hd0: "series ! 0 = hd series" by (simp add: hd_conv_nth)
    from ne obtain d v rest where sr: "series = (d, v) # rest" by (cases series) auto
    from ts have tr: "truthy_opt (py_get data (ustr ''Time Series (Daily)''))"
      and dn: "data \<noteq> []"
      and sb: "subscript data (ustr ''Time Series (Daily)'') = Inr (JD series)"
      using ne by (auto simp: truthy_opt_def py_get_def subscript_def)
    have hp: "historical_path E t =
        (if length prices > 1
         then (if last prices = 0 then Inl ZeroDivisionError
               else Inr (JS (ustr ''Historical performance for '' @ t
                        @ ustr '': Latest close on '' @ fst (hd series)
                        @ ustr '' was '' @ py_str E (Some lc)
                        @ ustr ''. Over the last '' @ str_nat (length prices)
                        @ ustr '' days, it changed by ''
                        @ fmt_2f E ((hd prices - last prices) / last prices * 100)
                        @ ustr ''%.'')))
         else Inr (JS (ustr ''Latest close for '' @ t @ ustr '' on '' @ fst (hd series)
                        @ ustr '' was '' @ py_str E (Some lc) @ ustr ''.'')))"
      unfolding historical_path_def
      using assms(2) ns tr dn sb lc cp hd0 sr by (simp add: Let_def)
    show "\<exists>latest_close. close_of series (fst (hd series)) = Inr latest_close
               \<and> (1 < length series \<and> last prices \<noteq> 0 \<longrightarrow>
                    orchestrate_query E query =
                      Inr (JS (ustr ''Historical performance for '' @ t
                        @ ustr '': Latest close on '' @ fst (hd series)
                        @ ustr '' was '' @ py_str E (Some latest_close)
                        @ ustr ''. Over the last '' @ str_nat (min 7 (length series))
                        @ ustr '' days, it changed by ''
                        @ fmt_2f E ((hd prices - last prices) / last prices * 100)
                        @ ustr ''%.'')))
               \<and> (length series = 1 \<longrightarrow>
                    orchestrate_query E query =
                      Inr (JS (ustr ''Latest close for '' @ t @ ustr '' on '' @ fst (hd series)
                        @ ustr '' was '' @ py_str E (Some latest_close) @ ustr ''.'')))"
    proof (intro exI[of _ lc] conjI impI)
      show "close_of series (fst (hd series)) = Inr lc" using lc hd0 by simp
    next
      assume "1 < length series \<and> last prices \<noteq> 0"
      with len have "1 < length prices" "last prices \<noteq> 0" by simp_all
      with hp len show "orchestrate_query E query =
                      Inr (JS (ustr ''Historical performance for '' @ t
                        @ ustr '': Latest close on '' @ fst (hd series)
                        @ ustr '' was '' @ py_str E (Some lc)
                        @ ustr ''. Over the last '' @ str_nat (min 7 (length series))
                        @ ustr '' days, it changed by ''
                        @ fmt_2f E ((hd prices - last prices) / last prices * 100)
                        @ ustr ''%.''))"
        unfolding o by simp
    next
      assume "length series = 1"
      with len have "\<not> 1 < length prices" by simp
      with hp show "orchestrate_query E query =
                      Inr (JS (ustr ''Latest close for '' @ t @ ustr '' on '' @ fst (hd series)
                        @ ustr '' was '' @ py_str E (Some lc) @ ustr ''.''))"
        unfolding o by simp
    qed
  qed
qed

lemma str_nat_digit: "n < 10 \<Longrightarrow> str_nat n = [48 + n]"
  by (subst str_nat.simps) simp

theorem historical_change_witness:
  "orchestrate_query week_env (ustr ''historical performance of IBM'')
     = Inr (JS (ustr ''Historical performance for IBM: Latest close on 2024-05-10 was 110.00. Over the last 7 days, it changed by 10.00%.''))
   \<and> orchestrate_query one_day_env (ustr ''historical performance of IBM'')
     = Inr (JS (ustr ''Latest close for IBM on 2024-05-10 was 110.00.''))
   \<and> orchestrate_query sample_env (ustr ''historical performance of IBM'')
     = Inr (JS ([9888, 65039] @ ustr '' Could not retrieve historical data for IBM.''))"
proof -
  let ?q = "ustr ''historical performance of IBM''"
  let ?t = "ustr ''IBM''"
  let ?TS = "ustr ''Time Series (Daily)''"
  let ?week = "[(ustr ''Meta Data'', JD [(ustr ''2. Symbol'', JS ?t)]), (?TS, JD eight_days)]"
  let ?one = "[(?TS, JD [day ''2024-05-10'' ''110.00''])]"
  let ?ps = "[110, 100, 100, 100, 100, 100, 100 :: real]"
  have c1: "classify week_env ?q = Historical ?t" by code_simp
  have g1: "get_historical_data week_env ?t = Inr ?week" by (simp add: week_env_def)
  have s1: "provider_signal ?week = None" by code_simp
  have f1: "float_of week_env = sample_float" by (simp add: week_env_def sample_env_def)
  have p1: "close_prices week_env eight_days (take 7 (map fst eight_days)) = Inr ?ps"
    by (simp add: eight_days_def day_def has_key_def close_of_def subscript_def py_float_def
        f1 sample_float_def ustr_def)
  have h1: "py_get ?week ?TS = Some (JD eight_days) \<and> eight_days \<noteq> []
      \<and> close_prices week_env eight_days (take 7 (map fst eight_days)) = Inr ?ps"
    using p1 by (simp add: py_get_def eight_days_def ustr_def)
  have l1: "close_of eight_days (fst (hd eight_days)) = Inr (JS (ustr ''110.00''))"
    by (simp add: eight_days_def day_def close_of_def subscript_def ustr_def)
  have n1: "1 < length eight_days \<and> last ?ps \<noteq> 0" by (simp add: eight_days_def)
  have m1: "str_nat (min 7 (length eight_days)) = ustr ''7''"
    by (simp add: eight_days_def str_nat_digit ustr_def)
  have d1: "fst (hd eight_days) = ustr ''2024-05-10''" by (simp add: eight_days_def day_def)
  have x1: "fmt_2f week_env ((hd ?ps - last ?ps) / last ?ps * 100) = ustr ''10.00''"
    by (simp add: week_env_def sample_env_def)
  from historical_change[OF c1 g1 s1, THEN conjunct1, THEN mp, OF h1] l1 n1
  have "orchestrate_query week_env ?q =
      Inr (JS (ustr ''Historical performance for '' @ ?t
        @ ustr '': Latest close on '' @ fst (hd eight_days)
        @ ustr '' was '' @ py_str week_env (Some (JS (ustr ''110.00'')))
        @ ustr ''. Over the last '' @ str_nat (min 7 (length eight_days))
        @ ustr '' days, it changed by ''
        @ fmt_2f week_env ((hd ?ps - last ?ps) / last ?ps * 100)
        @ ustr ''%.''))"
    by auto
  then have o1: "orchestrate_query week_env ?q
     = Inr (JS (ustr ''Historical performance for IBM: Latest close on 2024-05-10 was 110.00. Over the last 7 days, it changed by 10.00%.''))"
    unfolding m1 d1 x1 by (simp add: py_str_def ustr_def)
  have c2: "classify one_day_env ?q = Historical ?t" by code_simp
  have g2: "get_historical_data one_day_env ?t = Inr ?one" by (simp add: one_day_env_def)
  have s2: "provider_signal ?one = None" by code_simp
  have f2: "float_of one_day_env = sample_float" by (simp add: one_day_env_def sample_env_def)
  have h2: "py_get ?one ?TS = Some (JD [day ''2024-05-10'' ''110.00''])
      \<and> [day ''2024-05-10'' ''110.00''] \<noteq> []
      \<and> close_prices one_day_env [day ''2024-05-10'' ''110.00'']
            (take 7 (map fst [day ''2024-05-10'' ''110.00''])) = Inr [110]"
    by (simp add: py_get_def day_def has_key_def close_of_def subscript_def py_float_def
        f2 sample_float_def ustr_def)
  have l2: "close_of [day ''2024-05-10'' ''110.00''] (fst (hd [day ''2024-05-10'' ''110.00'']))
      = Inr (JS (ustr ''110.00''))"
    by (simp add: day_def close_of_def subscript_def ustr_def)
  from historical_change[OF c2 g2 s2, THEN conjunct1, THEN mp, OF h2] l2
  have "orchestrate_query one_day_env ?q =
      Inr (JS (ustr ''Latest close for '' @ ?t @ ustr '' on ''
        @ fst (hd [day ''2024-05-10'' ''110.00''])
        @ ustr '' was '' @ py_str one_day_env (Some (JS (ustr ''110.00''))) @ ustr ''.''))"
    by auto
  then have o2: "orchestrate_query one_day_env ?q
     = Inr (JS (ustr ''Latest close for IBM on 2024-05-10 was 110.00.''))"
    by (simp add: py_str_def day_def ustr_def)
  have c3: "classify sample_env ?q = Historical ?t" by code_simp
  have g3: "get_historical_data sample_env ?t = Inr []" by (simp add: sample_env_def)
  have s3: "provider_signal [] = None" by code_simp
  have h3: "\<not> truthy_opt (py_get [] ?TS)" by (simp add: py_get_def truthy_opt_def)
  from historical_change[OF c3 g3 s3, THEN conjunct2, THEN mp, OF h3]
  have o3: "orchestrate_query sample_env ?q
     = Inr (JS ([9888, 65039] @ ustr '' Could not retrieve historical data for IBM.''))"
    by (simp add: ustr_def)
  show ?thesis by (intro conjI o1 o2 o3)
qed

text \<open>
  Claim C5 as stated fails for a response that carries a provider signal: the signal
  is tested first. For the response \<open>{"Information": \<dots>}\<close> the series is absent,
  and the answer is the provider's message, not the fallback text.
\<close>

theorem historical_change_counterexample:
  "classify info_env (ustr ''show historical data for IBM'') = Historical (ustr ''IBM'')
   \<and> get_historical_data info_env (ustr ''IBM'')
     = Inr [(ustr ''Information'', JS (ustr ''Please subscribe to a premium plan.''))]
   \<and> py_get [(ustr ''Information'', JS (ustr ''Please subscribe to a premium plan.''))]
        (ustr ''Time Series (Daily)'') = None
   \<and> orchestrate_query info_env (ustr ''show historical data for IBM'')
     = Inr (JS (ustr ''Please subscribe to a premium plan.''))
   \<and> orchestrate_query info_env (ustr ''show historical data for IBM'')
     \<noteq> Inr (JS ([9888, 65039] @ ustr '' Could not retrieve historical data for IBM.''))"
proof -
  let ?q = "ustr ''show historical data for IBM''"
  let ?i = "[(ustr ''Information'', JS (ustr ''Please subscribe to a premium plan.''))]"
  have c: "classify info_env ?q = Historical (ustr ''IBM'')" by code_simp
  have g: "get_historical_data info_env (ustr ''IBM'') = Inr ?i" by (simp add: info_env_def)
  have s: "provider_signal ?i = Some (JS (ustr ''Please subscribe to a premium plan.''))"
    by code_simp
  have n: "py_get ?i (ustr ''Time Series (Daily)'') = None" by code_simp
  have "orchestrate_query info_env ?q = historical_path info_env (ustr ''IBM'')"
    by (simp add: orchestrate_query_dispatch c)
  also have "\<dots> = Inr (JS (ustr ''Please subscribe to a premium plan.''))"
    unfolding historical_path_def by (simp add: g provider_signal_Some[OF s])
  finally have o: "orchestrate_query info_env ?q
      = Inr (JS (ustr ''Please subscribe to a premium plan.''))" .
  then have d: "orchestrate_query info_env ?q
     \<noteq> Inr (JS ([9888, 65039] @ ustr '' Could not retrieve historical data for IBM.''))"
    by (simp add: ustr_def)
  show ?thesis by (intro conjI c g n o d)
qed

section \<open>The market brief\<close>

text \<open>
  Claim C3 fails on the code: \<open>get_market_brief\<close> tests only \<open>"Note"\<close>. When
  the quote call for \<open>QQQ\<close> returns an \<open>"Information"\<close> signal and the other two
  calls succeed, the brief keeps the two ticker lines, reports \<open>QQQ\<close> as
  unavailable and is sent on for summarization (the generation adapter here echoes
  its prompt); the signal is not returned.
\<close>

theorem market_brief_information_signal:
  "provider_signal [(ustr ''Information'', JS (ustr ''Please subscribe to a premium plan.''))]
     = Some (JS (ustr ''Please subscribe to a premium plan.''))
   \<and> get_stock_quote mixed_env (ustr ''QQQ'')
     = Inr [(ustr ''Information'', JS (ustr ''Please subscribe to a premium plan.''))]
   \<and> get_market_brief mixed_env
     = Inr (JS (ustr ''Summarize this market brief:\<newline>SPY: $500.00 (Change: 1.25)\<newline>QQQ: Quote unavailable.\<newline>DIA: $500.00 (Change: 1.25)''))"
  by code_simp

section \<open>Rate-limit notes and the api agent\<close>

lemma fetch_no_note:
  "fetch_alpha_vantage_data P function symbol kwargs = Inr d \<Longrightarrow> \<not> has_key d (ustr ''Note'')"
  by (auto simp: fetch_alpha_vantage_data_def has_key_def Let_def
      split: option.splits if_splits)

lemma no_key_not_truthy: "\<not> has_key d k \<Longrightarrow> \<not> truthy_opt (py_get d k)"
  by (simp add: has_key_def py_get_def truthy_opt_def)

lemma fetch_rate_limited:
  "rate_limited P function symbol kwargs \<Longrightarrow>
     fetch_alpha_vantage_data P function symbol kwargs = Inr []"
  by (auto simp: rate_limited_def fetch_alpha_vantage_data_def Let_def split: option.splits)

lemma repo_quote: "get_stock_quote (repo_env P E) = api_get_stock_quote P"
  by (simp add: repo_env_def)

lemma repo_history:
  "get_historical_data (repo_env P E) t = api_get_historical_data P t (ustr ''compact'')"
  by (simp add: repo_env_def)

lemma repo_quote_no_note:
  "get_stock_quote (repo_env P E) t = Inr d \<Longrightarrow> \<not> truthy_opt (py_get d (ustr ''Note''))"
  by (auto simp: repo_quote api_get_stock_quote_def dest!: fetch_no_note no_key_not_truthy)

lemma brief_tickers_no_return:
  "brief_tickers (repo_env P E) tickers parts \<noteq> Inr (Inl v)"
proof (induction tickers arbitrary: parts)
  case Nil
  then show ?case by simp
next
  case (Cons t tickers)
  show ?case
  proof (cases "get_stock_quote (repo_env P E) t")
    case (Inl e)
    then show ?thesis by simp
  next
    case (Inr d)
    from repo_quote_no_note[OF Inr] have n: "\<not> truthy_opt (py_get d (ustr ''Note''))" .
    show ?thesis
      using Inr n Cons.IH by (simp add: Let_def split: sum.splits jv.splits)
  qed
qed

lemma brief_tickers_rate_limited:
  "\<forall>t\<in>set tickers. rate_limited P (ustr ''GLOBAL_QUOTE'') t [] \<Longrightarrow>
     brief_tickers (repo_env P E) tickers parts
       = Inr (Inr (parts @ map (\<lambda>t. t @ ustr '': Quote unavailable.'') tickers))"
proof (induction tickers arbitrary: parts)
  case Nil
  then show ?case by simp
next
  case (Cons t tickers)
  from Cons.prems have "get_stock_quote (repo_env P E) t = Inr []"
    by (simp add: repo_quote api_get_stock_quote_def fetch_rate_limited)
  moreover from Cons.prems have "\<forall>t\<in>set tickers. rate_limited P (ustr ''GLOBAL_QUOTE'') t []"
    by simp
  ultimately show ?case using Cons.IH
    by (simp add: py_get_def truthy_opt_def)
qed

text \<open>
  Claim C10 (amended). For every provider response that contains a \<open>"Note"\<close> key and
  no \<open>"Error Message"\<close> key, \<open>fetch_alpha_vantage_data\<close> returns the empty
  mapping. Hence no mapping it returns contains \<open>"Note"\<close>; with the repository's
  collaborators the \<open>"Note"\<close> test of the dispatcher is never true and the market
  brief never returns early; and a rate-limited request gives the "could not retrieve"
  fallback on the quote and historical paths and a "Quote unavailable." line in the
  market brief.
\<close>

theorem rate_limit_note_swallowed:
  "(rate_limited P function symbol kwargs
      \<longrightarrow> fetch_alpha_vantage_data P function symbol kwargs = Inr [])
   \<and> (fetch_alpha_vantage_data P function symbol kwargs = Inr d
      \<longrightarrow> \<not> has_key d (ustr ''Note''))
   \<and> (get_stock_quote (repo_env P E) t = Inr d
      \<longrightarrow> \<not> has_key d (ustr ''Note'') \<and> \<not> truthy_opt (py_get d (ustr ''Note'')))
   \<and> (get_historical_data (repo_env P E) t = Inr d
      \<longrightarrow> \<not> has_key d (ustr ''Note'') \<and> \<not> truthy_opt (py_get d (ustr ''Note'')))
   \<and> brief_tickers (repo_env P E) tickers parts \<noteq> Inr (Inl v)
   \<and> (classify (repo_env P E) query = Quote t \<and> rate_limited P (ustr ''GLOBAL_QUOTE'') t []
      \<longrightarrow> orchestrate_query (repo_env P E) query
            = Inr (JS ([9888, 65039] @ ustr '' Could not retrieve live quote for '' @ t
                @ ustr ''.'')))
   \<and> (classify (repo_env P E) query = Historical t
        \<and> rate_limited P (ustr ''TIME_SERIES_DAILY'') t [(ustr ''outputsize'', ustr ''compact'')]
      \<longrightarrow> orchestrate_query (repo_env P E) query
            = Inr (JS ([9888, 65039] @ ustr '' Could not retrieve historical data for '' @ t
                @ ustr ''.'')))
   \<and> ((\<forall>t\<in>set tickers. rate_limited P (ustr ''GLOBAL_QUOTE'') t [])
      \<longrightarrow> brief_tickers (repo_env P E) tickers parts
            = Inr (Inr (parts @ map (\<lambda>t. t @ ustr '': Quote unavailable.'') tickers)))"
proof (intro conjI impI)
  show "rate_limited P function symbol kwargs \<Longrightarrow>
      fetch_alpha_vantage_data P function symbol kwargs = Inr []"
    by (rule fetch_rate_limited)
  show "fetch_alpha_vantage_data P function symbol kwargs = Inr d \<Longrightarrow>
      \<not> has_key d (ustr ''Note'')"
    by (rule fetch_no_note)
  show "get_stock_quote (repo_env P E) t = Inr d \<Longrightarrow> \<not> has_key d (ustr ''Note'')"
    by (auto simp: repo_quote api_get_stock_quote_def dest!: fetch_no_note)
  show "get_stock_quote (repo_env P E) t = Inr d \<Longrightarrow> \<not> truthy_opt (py_get d (ustr ''Note''))"
    by (rule repo_quote_no_note)
  show "get_historical_data (repo_env P E) t = Inr d \<Longrightarrow> \<not> has_key d (ustr ''Note'')"
    by (auto simp: repo_history api_get_historical_data_def dest!: fetch_no_note)
  show "get_historical_data (repo_env P E) t = Inr d \<Longrightarrow>
      \<not> truthy_opt (py_get d (ustr ''Note''))"
    by (auto simp: repo_history api_get_historical_data_def dest!: fetch_no_note no_key_not_truthy)
  show "brief_tickers (repo_env P E) tickers parts \<noteq> Inr (Inl v)"
    by (rule brief_tickers_no_return)
next
  assume a: "classify (repo_env P E) query = Quote t \<and> rate_limited P (ustr ''GLOBAL_QUOTE'') t []"
  then have "get_stock_quote (repo_env P E) t = Inr []"
    by (simp add: repo_quote api_get_stock_quote_def fetch_rate_limited)
  with a show "orchestrate_query (repo_env P E) query
            = Inr (JS ([9888, 65039] @ ustr '' Could not retrieve live quote for '' @ t
                @ ustr ''.''))"
    by (simp add: orchestrate_query_dispatch quote_path_def py_get_def truthy_opt_def
        warning_sign_def)
next
  assume a: "classify (repo_env P E) query = Historical t
        \<and> rate_limited P (ustr ''TIME_SERIES_DAILY'') t [(ustr ''outputsize'', ustr ''compact'')]"
  then have "get_historical_data (repo_env P E) t = Inr []"
    by (simp add: repo_history api_get_historical_data_def fetch_rate_limited)
  with a show "orchestrate_query (repo_env P E) query
            = Inr (JS ([9888, 65039] @ ustr '' Could not retrieve historical data for '' @ t
                @ ustr ''.''))"
    by (simp add: orchestrate_query_dispatch historical_path_def py_get_def truthy_opt_def
        warning_sign_def)
next
  assume "\<forall>t\<in>set tickers. rate_limited P (ustr ''GLOBAL_QUOTE'') t []"
  then show "brief_tickers (repo_env P E) tickers parts
            = Inr (Inr (parts @ map (\<lambda>t. t @ ustr '': Quote unavailable.'') tickers))"
    by (rule brief_tickers_rate_limited)
qed

theorem rate_limit_note_swallowed_witness:
  "rate_limited limited (ustr ''GLOBAL_QUOTE'') (ustr ''TSLA'') []
   \<and> fetch_alpha_vantage_data limited (ustr ''GLOBAL_QUOTE'') (ustr ''TSLA'') [] = Inr []
   \<and> orchestrate_query (repo_env limited sample_env) (ustr ''What's the price of TSLA?'')
     = Inr (JS ([9888, 65039] @ ustr '' Could not retrieve live quote for TSLA.''))
   \<and> orchestrate_query (repo_env limited sample_env) (ustr ''historical performance of IBM'')
     = Inr (JS ([9888, 65039] @ ustr '' Could not retrieve historical data for IBM.''))
   \<and> brief_tickers (repo_env limited sample_env) index_tickers []
     = Inr (Inr [ustr ''SPY: Quote unavailable.'', ustr ''QQQ: Quote unavailable.'',
                 ustr ''DIA: Quote unavailable.''])"
proof -
  let ?E = "repo_env limited sample_env"
  note Q = rate_limit_note_swallowed[of limited "ustr ''GLOBAL_QUOTE''" "ustr ''TSLA''" "[]" "[]"
      sample_env "ustr ''TSLA''" index_tickers "[]" _ "ustr ''What's the price of TSLA?''"]
  note H = rate_limit_note_swallowed[of limited _ _ _ _ sample_env "ustr ''IBM''" _ _ _
      "ustr ''historical performance of IBM''"]
  have r1: "rate_limited limited (ustr ''GLOBAL_QUOTE'') (ustr ''TSLA'') []" by code_simp
  have r2: "rate_limited limited (ustr ''TIME_SERIES_DAILY'') (ustr ''IBM'')
      [(ustr ''outputsize'', ustr ''compact'')]" by code_simp
  have r3: "\<forall>t\<in>set index_tickers. rate_limited limited (ustr ''GLOBAL_QUOTE'') t []"
    by (simp add: rate_limited_def limited_def has_key_def ustr_def)
  have c1: "classify ?E (ustr ''What's the price of TSLA?'') = Quote (ustr ''TSLA'')"
    by code_simp
  have c2: "classify ?E (ustr ''historical performance of IBM'') = Historical (ustr ''IBM'')"
    by code_simp
  have f: "fetch_alpha_vantage_data limited (ustr ''GLOBAL_QUOTE'') (ustr ''TSLA'') [] = Inr []"
    by (rule Q[THEN conjunct1, THEN mp]) (rule r1)
  have o1: "orchestrate_query ?E (ustr ''What's the price of TSLA?'')
     = Inr (JS ([9888, 65039] @ ustr '' Could not retrieve live quote for '' @ ustr ''TSLA''
                @ ustr ''.''))"
    by (rule Q[THEN conjunct2, THEN conjunct2, THEN conjunct2, THEN conjunct2, THEN conjunct2,
          THEN conjunct1, THEN mp]) (intro conjI c1 r1)
  have o2: "orchestrate_query ?E (ustr ''historical performance of IBM'')
     = Inr (JS ([9888, 65039] @ ustr '' Could not retrieve historical data for '' @ ustr ''IBM''
                @ ustr ''.''))"
    by (rule H[THEN conjunct2, THEN conjunct2, THEN conjunct2, THEN conjunct2, THEN conjunct2,
          THEN conjunct2, THEN conjunct1, THEN mp]) (intro conjI c2 r2)
  have b: "brief_tickers ?E index_tickers []
     = Inr (Inr ([] @ map (\<lambda>t. t @ ustr '': Quote unavailable.'') index_tickers))"
    by (rule Q[THEN conjunct2, THEN conjunct2, THEN conjunct2, THEN conjunct2, THEN conjunct2,
          THEN conjunct2, THEN conjunct2, THEN mp]) (rule r3)
  from o1 have o1': "orchestrate_query ?E (ustr ''What's the price of TSLA?'')
     = Inr (JS ([9888, 65039] @ ustr '' Could not retrieve live quote for TSLA.''))"
    by (simp add: ustr_def)
  from o2 have o2': "orchestrate_query ?E (ustr ''historical performance of IBM'')
     = Inr (JS ([9888, 65039] @ ustr '' Could not retrieve historical data for IBM.''))"
    by (simp add: ustr_def)
  from b have b': "brief_tickers ?E index_tickers []
     = Inr (Inr [ustr ''SPY: Quote unavailable.'', ustr ''QQQ: Quote unavailable.'',
                 ustr ''DIA: Quote unavailable.''])"
    by (simp add: index_tickers_def ustr_def)
  show ?thesis by (intro conjI r1 f o1' o2' b')
qed

text \<open>
  Claim C10 as stated fails for a response that carries both keys: the
  \<open>"Error Message"\<close> test comes first, and the call raises instead of returning the
  empty mapping.
\<close>

theorem rate_limit_note_counterexample:
  "requests_get_json error_and_note
      [(ustr ''function'', ustr ''GLOBAL_QUOTE''), (ustr ''symbol'', ustr ''IBM''),
       (ustr ''apikey'', ustr ''demo'')]
     = Some [(ustr ''Error Message'', JS (ustr ''Invalid API call.'')),
             (ustr ''Note'', JS (ustr ''API call frequency is 5 calls per minute.''))]
   \<and> has_key [(ustr ''Error Message'', JS (ustr ''Invalid API call.'')),
              (ustr ''Note'', JS (ustr ''API call frequency is 5 calls per minute.''))]
        (ustr ''Note'')
   \<and> fetch_alpha_vantage_data error_and_note (ustr ''GLOBAL_QUOTE'') (ustr ''IBM'') []
     = Inl (HTTPException 500)"
  by code_simp

end
